theory Spec2Isabelle
  imports Complex_Main "HOL-Library.Log_Nat"
begin

section \<open>Heart disease risk assessment: the submitted-form pipeline of \<open>app.py\<close>\<close>

text \<open>
  The program is a single script. It loads two artifacts, renders a form, and on submission
  assembles a one-row data frame, scales four of its columns, asks the classifier for a
  class and a probability, and renders the verdict, the confidence, the guidance and the
  risk-factor summary. The script's effects are calls to the rendering library; they are
  modelled as the list of calls made, in order.

  Numbers: Python \<open>int\<close> is \<open>int\<close>. A finite float (a binary64 value) is a rational number,
  and is modelled as the \<open>rat\<close> it denotes; comparisons (\<open>bmi >= 30\<close>,
  \<open>probability >= 0.5\<close>) are exact on floats, so they are exact in the model. The float
  arithmetic of the script, \<open>probability * 100\<close> and the rounding of line 120, rounds every
  result to the nearest binary64 value (\<open>fl\<close> below).
\<close>

subsection \<open>Values, errors, rendered calls\<close>

datatype pynum = PyInt int | PyFloat rat

datatype error =
    ValueError string          \<comment> \<open>\<open>list.index\<close>: the value is not in the list; shape mismatch\<close>
  | KeyError string            \<comment> \<open>a data frame column that does not exist\<close>
  | StreamlitAPIException      \<comment> \<open>\<open>st.progress\<close> with a float outside 0.0 .. 1.0\<close>

datatype st_call =
    StPageAndForm              \<comment> \<open>lines 14-82: page configuration, title, description, form widgets\<close>
  | StHeader string
  | StSubheader string
  | StError string
  | StSuccess string
  | StMarkdown string
  | StProgress rat
  | StWarning string
  | StInfo string
  | StWrite string

text \<open>One row of a data frame: the columns in order, each with its value.\<close>

type_synonym dataframe = "(string \<times> pynum) list"

text \<open>
  The two artifacts are opaque objects read from disk. The classifier offers \<open>predict\<close>
  and \<open>predict_proba\<close> (the probability of class 1), the scaler offers \<open>transform\<close> on the
  selected columns.
\<close>

record classifier =
  predict :: "dataframe \<Rightarrow> int"
  predict_proba :: "dataframe \<Rightarrow> rat"

type_synonym scaler = "rat list \<Rightarrow> rat list"

text \<open>The values returned by the form widgets (lines 42-82).\<close>

record patient_input =
  age_category :: string
  sex :: string
  bmi :: rat
  physical_health :: int
  mental_health :: int
  sleep_time :: int
  stroke :: string
  diff_walking :: string
  asthma :: string
  kidney_disease :: string
  skin_cancer :: string
  diabetic :: string
  gen_health :: string
  smoking :: string
  alcohol :: string
  physical_activity :: string

subsection \<open>Option lists (lines 32-39)\<close>

definition gen_health_options :: "string list" where
  "gen_health_options = [''Poor'', ''Fair'', ''Good'', ''Very good'', ''Excellent'']"

definition diabetic_options :: "string list" where
  "diabetic_options = [''No'', ''Yes'', ''No, borderline diabetes'', ''Yes (during pregnancy)'']"

definition age_categories :: "string list" where
  "age_categories =
     [''18-24'', ''25-29'', ''30-34'', ''35-39'', ''40-44'',
      ''45-49'', ''50-54'', ''55-59'', ''60-64'', ''65-69'',
      ''70-74'', ''75-79'', ''80 or older'']"

text \<open>
  What the widgets can return: a select box or radio returns one of its options, a slider
  a number between its bounds.
\<close>

definition in_domain :: "patient_input \<Rightarrow> bool" where
  "in_domain p =
     (age_category p \<in> set age_categories \<and>
      sex p \<in> set [''Female'', ''Male''] \<and>
      10 \<le> bmi p \<and> bmi p \<le> 50 \<and>
      0 \<le> physical_health p \<and> physical_health p \<le> 30 \<and>
      0 \<le> mental_health p \<and> mental_health p \<le> 30 \<and>
      1 \<le> sleep_time p \<and> sleep_time p \<le> 12 \<and>
      stroke p \<in> set [''No'', ''Yes''] \<and>
      diff_walking p \<in> set [''No'', ''Yes''] \<and>
      asthma p \<in> set [''No'', ''Yes''] \<and>
      kidney_disease p \<in> set [''No'', ''Yes''] \<and>
      skin_cancer p \<in> set [''No'', ''Yes''] \<and>
      diabetic p \<in> set diabetic_options \<and>
      gen_health p \<in> set gen_health_options \<and>
      smoking p \<in> set [''No'', ''Yes''] \<and>
      alcohol p \<in> set [''No'', ''Yes''] \<and>
      physical_activity p \<in> set [''No'', ''Yes''])"

subsection \<open>Python built-ins used by the script\<close>

text \<open>\<open>xs.index(v)\<close>: the position of the first occurrence, or \<open>ValueError\<close>.\<close>

fun index_from :: "nat \<Rightarrow> string list \<Rightarrow> string \<Rightarrow> error + nat" where
  "index_from i [] v = Inl (ValueError v)"
| "index_from i (x # xs) v = (if x = v then Inr i else index_from (Suc i) xs v)"

definition index_py :: "string list \<Rightarrow> string \<Rightarrow> error + nat" where
  "index_py xs v = index_from 0 xs v"

text \<open>\<open>sep.join(xs)\<close>.\<close>

fun join :: "string \<Rightarrow> string list \<Rightarrow> string" where
  "join sep [] = []"
| "join sep [x] = x"
| "join sep (x # y # ys) = x @ sep @ join sep (y # ys)"

text \<open>The nearest integer, a tie going to the even one (\<open>rint\<close>).\<close>

definition round_half_even :: "rat \<Rightarrow> int" where
  "round_half_even y =
     (let f = \<lfloor>y\<rfloor>; d = y - of_int f
      in if d < 1 / 2 then f
         else if 1 / 2 < d then f + 1
         else if even f then f else f + 1)"

text \<open>
  Binary64 arithmetic. \<open>ilog2 x\<close> is the exponent of the leading bit of a positive \<open>x\<close>,
  read off the bit lengths of numerator and denominator. \<open>fl x\<close> is the binary64 value
  nearest to \<open>x\<close>, a tie going to the even significand: 53 significant bits, and a
  spacing of \<open>2 ^ -1074\<close> in the subnormal range. Every float operation returns \<open>fl\<close> of
  the exact result. Overflow to infinity is left out; the values of the script stay
  below 1001.
\<close>

definition ilog2 :: "rat \<Rightarrow> int" where
  "ilog2 x =
     (let (n, d) = quotient_of x; e0 = bitlen n - bitlen d
      in if 2 powi e0 \<le> x then e0 else e0 - 1)"

definition fl :: "rat \<Rightarrow> rat" where
  "fl x =
     (let e = max (ilog2 \<bar>x\<bar> - 52) (- 1074)
      in of_int (round_half_even (x / 2 powi e)) * 2 powi e)"

text \<open>
  \<open>round(x, ndigits)\<close> on the float that \<open>predict_proba\<close> yields, a numpy \<open>float64\<close>: the
  value is multiplied by \<open>10 ** ndigits\<close>, rounded to the nearest integer with ties to
  even, and divided by \<open>10 ** ndigits\<close>, each step in binary64; the power of ten is
  exact for the one digit the script asks for. (The built-in rounding of a plain Python
  float rounds the exact decimal expansion instead, and differs at values such as 0.05.)
\<close>

definition py_round :: "rat \<Rightarrow> nat \<Rightarrow> rat" where
  "py_round x ndigits = fl (of_int (round_half_even (fl (x * 10 ^ ndigits))) / 10 ^ ndigits)"

subsection \<open>Data frame operations used by the script\<close>

text \<open>\<open>df[cols]\<close>: the named columns in the order asked for; a missing column is a \<open>KeyError\<close>.\<close>

fun get_col :: "dataframe \<Rightarrow> string \<Rightarrow> error + pynum" where
  "get_col [] c = Inl (KeyError c)"
| "get_col ((k, v) # df) c = (if k = c then Inr v else get_col df c)"

fun select_cols :: "dataframe \<Rightarrow> string list \<Rightarrow> error + pynum list" where
  "select_cols df [] = Inr []"
| "select_cols df (c # cs) =
     (case get_col df c of
        Inl e \<Rightarrow> Inl e
      | Inr v \<Rightarrow> (case select_cols df cs of Inl e \<Rightarrow> Inl e | Inr vs \<Rightarrow> Inr (v # vs)))"

text \<open>\<open>df[c] = v\<close>: an existing column keeps its place and takes the value, a new one is appended.\<close>

fun set_col :: "string \<Rightarrow> pynum \<Rightarrow> dataframe \<Rightarrow> dataframe" where
  "set_col c v [] = [(c, v)]"
| "set_col c v ((k, w) # df) = (if k = c then (k, v) # df else (k, w) # set_col c v df)"

text \<open>\<open>df[cols] = values\<close>: one value per named column, else \<open>ValueError\<close>.\<close>

fun set_cols :: "string list \<Rightarrow> pynum list \<Rightarrow> dataframe \<Rightarrow> error + dataframe" where
  "set_cols [] [] df = Inr df"
| "set_cols (c # cs) (v # vs) df = set_cols cs vs (set_col c v df)"
| "set_cols _ _ df = Inl (ValueError ''shape mismatch'')"

text \<open>The transform receives the selected columns as floats and returns floats.\<close>

fun to_float :: "pynum \<Rightarrow> rat" where
  "to_float (PyInt i) = of_int i"
| "to_float (PyFloat x) = x"

subsection \<open>Assembly (lines 86-107) and scaling (lines 110-113)\<close>

text \<open>
  The dictionary literal is evaluated entry by entry, so the three \<open>index\<close> calls run in
  the order age, diabetic, general health, and the first to fail ends the assembly.
\<close>

definition input_data :: "patient_input \<Rightarrow> error + dataframe" where
  "input_data p =
     (case index_py age_categories (age_category p) of
        Inl e \<Rightarrow> Inl e
      | Inr a \<Rightarrow>
     (case index_py diabetic_options (diabetic p) of
        Inl e \<Rightarrow> Inl e
      | Inr d \<Rightarrow>
     (case index_py gen_health_options (gen_health p) of
        Inl e \<Rightarrow> Inl e
      | Inr g \<Rightarrow>
        Inr [(''BMI'', PyFloat (bmi p)),
             (''Smoking'', PyInt (if smoking p = ''Yes'' then 1 else 0)),
             (''AlcoholDrinking'', PyInt (if alcohol p = ''Yes'' then 1 else 0)),
             (''Stroke'', PyInt (if stroke p = ''Yes'' then 1 else 0)),
             (''PhysicalHealth'', PyInt (physical_health p)),
             (''MentalHealth'', PyInt (mental_health p)),
             (''DiffWalking'', PyInt (if diff_walking p = ''Yes'' then 1 else 0)),
             (''Sex'', PyInt (if sex p = ''Male'' then 1 else 0)),
             (''AgeCategory'', PyInt (int a)),
             (''Diabetic'', PyInt (int d)),
             (''PhysicalActivity'', PyInt (if physical_activity p = ''Yes'' then 1 else 0)),
             (''GenHealth'', PyInt (int g)),
             (''SleepTime'', PyInt (sleep_time p)),
             (''Asthma'', PyInt (if asthma p = ''Yes'' then 1 else 0)),
             (''KidneyDisease'', PyInt (if kidney_disease p = ''Yes'' then 1 else 0)),
             (''SkinCancer'', PyInt (if skin_cancer p = ''Yes'' then 1 else 0))])))"

definition features_to_scale :: "string list" where
  "features_to_scale = [''BMI'', ''PhysicalHealth'', ''MentalHealth'', ''SleepTime'']"

definition scale_features :: "scaler \<Rightarrow> dataframe \<Rightarrow> error + dataframe" where
  "scale_features transform input_df =
     (case select_cols input_df features_to_scale of
        Inl e \<Rightarrow> Inl e
      | Inr vs \<Rightarrow> set_cols features_to_scale (map PyFloat (transform (map to_float vs))) input_df)"

text \<open>The bounds of the four scaled columns, in the order of \<open>features_to_scale\<close>.\<close>

record scaling_parameters =
  data_min :: "rat list"
  data_max :: "rat list"

text \<open>
  Modelled from the spec: the fitted scaler is a binary artifact (\<open>minmax_scaler.pkl\<close>)
  that is not part of the source; section 4.3 of the specification gives its transform as
  \<open>(x - min) / (max - min)\<close> per field, with bounds fixed at training time. The formula
  is taken as written, in exact arithmetic.
\<close>

definition minmax_transform :: "scaling_parameters \<Rightarrow> scaler" where
  "minmax_transform sp xs =
     map (\<lambda>(x, mn, mx). (x - mn) / (mx - mn)) (zip xs (zip (data_min sp) (data_max sp)))"

subsection \<open>Interpretation and rendering (lines 117-178)\<close>

definition risk_percentage :: "rat \<Rightarrow> rat" where
  "risk_percentage probability = py_round (fl (probability * 100)) 1"

definition at_risk_text :: string where
  "at_risk_text = ''**At Risk of Heart Disease**''"

definition not_at_risk_text :: string where
  "not_at_risk_text = ''**Not At Risk of Heart Disease**''"

definition elevated_text :: string where
  "elevated_text =
     ''\<newline>            **This patient shows elevated risk for heart disease.**'' @
     ''\<newline>            Recommended actions:'' @
     ''\<newline>            - Schedule cardiology consultation within 2 weeks'' @
     ''\<newline>            - Order ECG and lipid profile tests'' @
     ''\<newline>            - Provide heart health education materials'' @
     ''\<newline>            - Schedule follow-up appointment in 1 month'' @
     ''\<newline>            ''"

definition low_text :: string where
  "low_text =
     ''\<newline>            **This patient shows low risk for heart disease.**'' @
     ''\<newline>            Recommended actions:'' @
     ''\<newline>            - Reinforce heart-healthy lifestyle habits'' @
     ''\<newline>            - Provide preventive care education'' @
     ''\<newline>            - Schedule annual wellness check'' @
     ''\<newline>            ''"

definition failed_text :: string where
  "failed_text = ''Assessment failed: Please check all fields are complete''"

text \<open>
  The risk-factor list (lines 163-173). \<open>fmt\<close> stands for Python's formatting of a float
  inside an f-string.
\<close>

definition risk_factors :: "(rat \<Rightarrow> string) \<Rightarrow> patient_input \<Rightarrow> string list" where
  "risk_factors fmt p =
     (let rf0 = [];
          rf1 = (if smoking p = ''Yes'' then rf0 @ [''Smoking''] else rf0);
          rf2 = (if 30 \<le> bmi p then rf1 @ [''Obesity (BMI: '' @ fmt (bmi p) @ '')''] else rf1);
          rf3 = (if 15 \<le> physical_health p
                 then rf2 @ [''Frequent physical health issues''] else rf2);
          rf4 = (if age_category p \<in>
                    set [''55-59'', ''60-64'', ''65-69'', ''70-74'', ''75-79'', ''80 or older'']
                 then rf3 @ [''Age ('' @ age_category p @ '')''] else rf3);
          rf5 = (if diabetic p \<noteq> ''No'' then rf4 @ [''Diabetes''] else rf4)
      in rf5)"

definition risk_factor_summary :: "string list \<Rightarrow> st_call" where
  "risk_factor_summary rf =
     (if rf \<noteq> [] then StWrite (''Identified risk factors: '' @ join '', '' rf)
      else StWrite ''No major risk factors identified'')"

definition verdict_call :: "int \<Rightarrow> st_call" where
  "verdict_call prediction =
     (if prediction = 1 then StError at_risk_text else StSuccess not_at_risk_text)"

definition guidance_call :: "rat \<Rightarrow> st_call" where
  "guidance_call probability =
     (if 1 / 2 \<le> probability then StWarning elevated_text else StInfo low_text)"

definition confidence_call :: "(rat \<Rightarrow> string) \<Rightarrow> rat \<Rightarrow> st_call" where
  "confidence_call fmt rp =
     StMarkdown (''<h1 style='' @ [CHR 0x27] @ ''text-align: center;'' @ [CHR 0x27] @ ''>'' @
                 fmt rp @ ''%</h1>'')"

text \<open>
  The body of the \<open>try\<close> block: the calls made so far, and the exception that ended it, if
  any. \<open>st.progress\<close> accepts a float only between 0.0 and 1.0 and raises otherwise (the
  tolerance of recent releases at the two ends is not modelled). The classifier's two
  operations are taken to return a value for every data frame.
\<close>

definition assessment ::
  "(rat \<Rightarrow> string) \<Rightarrow> classifier \<Rightarrow> scaler \<Rightarrow> patient_input \<Rightarrow> st_call list \<times> error option"
where
  "assessment fmt model transform p =
     (case input_data p of
        Inl e \<Rightarrow> ([], Some e)
      | Inr input_df \<Rightarrow>
     (case scale_features transform input_df of
        Inl e \<Rightarrow> ([], Some e)
      | Inr scaled_df \<Rightarrow>
        (let prediction = predict model scaled_df;
             probability = predict_proba model scaled_df;
             shown = [StHeader ''Risk Assessment Results'',
                      StSubheader ''Clinical Prediction'',
                      verdict_call prediction,
                      StSubheader ''Model Confidence'',
                      confidence_call fmt (risk_percentage probability)]
         in if 0 \<le> probability \<and> probability \<le> 1
            then (shown @
                  [StProgress probability,
                   StSubheader ''Clinical Guidance'',
                   guidance_call probability,
                   StSubheader ''Key Risk Factors'',
                   risk_factor_summary (risk_factors fmt p)], None)
            else (shown, Some StreamlitAPIException))))"

text \<open>The \<open>except\<close> handler (lines 180-181) drops the exception and renders a fixed message.\<close>

definition on_submit ::
  "(rat \<Rightarrow> string) \<Rightarrow> classifier \<Rightarrow> scaler \<Rightarrow> patient_input \<Rightarrow> st_call list"
where
  "on_submit fmt model transform p =
     (case assessment fmt model transform p of
        (out, None) \<Rightarrow> out
      | (out, Some e) \<Rightarrow> out @ [StError failed_text])"

text \<open>
  One run of the script. Each \<open>joblib.load\<close> either yields the artifact or raises, with
  the text of the exception; the second load is not attempted when the first raises, and
  \<open>st.stop()\<close> ends the run.
\<close>

definition app ::
  "(rat \<Rightarrow> string) \<Rightarrow> string + classifier \<Rightarrow> string + scaler \<Rightarrow> bool \<Rightarrow> patient_input
     \<Rightarrow> st_call list"
where
  "app fmt model_load scaler_load submitted p =
     (case model_load of
        Inl e \<Rightarrow> [StError (''Error loading model: '' @ e)]
      | Inr model \<Rightarrow>
     (case scaler_load of
        Inl e \<Rightarrow> [StError (''Error loading model: '' @ e)]
      | Inr transform \<Rightarrow>
        StPageAndForm # (if submitted then on_submit fmt model transform p else [])))"

text \<open>
  A session is a sequence of runs. The rendering library executes the script from the top
  on every interaction; lines 7-12 keep nothing between runs, so each run performs both
  loads again, with the artifact files as they are at that moment, and \<open>st.stop()\<close> ends
  only the run that calls it.
\<close>

record run_input =
  run_model :: "string + classifier"
  run_scaler :: "string + scaler"
  run_submitted :: bool
  run_form :: patient_input

definition session :: "(rat \<Rightarrow> string) \<Rightarrow> run_input list \<Rightarrow> st_call list list" where
  "session fmt runs =
     map (\<lambda>r. app fmt (run_model r) (run_scaler r) (run_submitted r) (run_form r)) runs"

subsection \<open>The views and fixtures used in the statements below\<close>

text \<open>
  The verdict and the guidance tier of a run, read off the calls it made: the verdict is
  the \<open>st.error\<close>/\<open>st.success\<close> of lines 128-131, the tier the \<open>st.warning\<close>/\<open>st.info\<close> of
  lines 143-159.
\<close>

datatype verdict = AtRisk | NotAtRisk

datatype guidance_tier = Elevated | Low

definition shown_verdict :: "st_call list \<Rightarrow> verdict option" where
  "shown_verdict out =
     (if StError at_risk_text \<in> set out then Some AtRisk
      else if StSuccess not_at_risk_text \<in> set out then Some NotAtRisk
      else None)"

definition shown_tier :: "st_call list \<Rightarrow> guidance_tier option" where
  "shown_tier out =
     (if StWarning elevated_text \<in> set out then Some Elevated
      else if StInfo low_text \<in> set out then Some Low
      else None)"

text \<open>
  The flag list as the specification words it: the five conditions in their fixed order,
  each with its flag, and the flags of those that hold.
\<close>

definition spec_flags :: "(rat \<Rightarrow> string) \<Rightarrow> patient_input \<Rightarrow> string list" where
  "spec_flags fmt p =
     map snd (filter fst
       [(smoking p = ''Yes'', ''Smoking''),
        (30 \<le> bmi p, ''Obesity (BMI: '' @ fmt (bmi p) @ '')''),
        (15 \<le> physical_health p, ''Frequent physical health issues''),
        (age_category p \<in> {''55-59'', ''60-64'', ''65-69'', ''70-74'', ''75-79'', ''80 or older''},
         ''Age ('' @ age_category p @ '')''),
        (diabetic p \<noteq> ''No'', ''Diabetes'')])"

text \<open>A classifier that answers the same class and probability for every input.\<close>

definition stub_classifier :: "int \<Rightarrow> rat \<Rightarrow> classifier" where
  "stub_classifier c pr = \<lparr>predict = (\<lambda>df. c), predict_proba = (\<lambda>df. pr)\<rparr>"

text \<open>
  Decimal digits of a natural number, and the text of a float that is the binary64 value
  nearest to a whole number of tenths: the shortest decimal that reads back as the same
  float, which is that number of tenths.
\<close>

fun digits :: "nat \<Rightarrow> string" where
  "digits n = (if n < 10 then [char_of (48 + n)] else digits (n div 10) @ [char_of (48 + n mod 10)])"

declare digits.simps [simp del]

definition fmt_tenths :: "rat \<Rightarrow> string" where
  "fmt_tenths x =
     (let k = round_half_even (x * 10); a = nat \<bar>k\<bar>
      in (if k < 0 then ''-'' else []) @ digits (a div 10) @ ''.'' @ digits (a mod 10))"

definition example_params :: scaling_parameters where
  "example_params = \<lparr>data_min = [12, 0, 0, 1], data_max = [95, 30, 30, 24]\<rparr>"

definition example_patient :: patient_input where
  "example_patient =
     \<lparr>age_category = ''60-64'', sex = ''Male'', bmi = 32, physical_health = 20,
      mental_health = 5, sleep_time = 7, stroke = ''No'', diff_walking = ''No'',
      asthma = ''No'', kidney_disease = ''No'', skin_cancer = ''No'', diabetic = ''Yes'',
      gen_health = ''Good'', smoking = ''Yes'', alcohol = ''No'', physical_activity = ''Yes''\<rparr>"

definition healthy_patient :: patient_input where
  "healthy_patient =
     \<lparr>age_category = ''30-34'', sex = ''Female'', bmi = 22, physical_health = 0,
      mental_health = 0, sleep_time = 8, stroke = ''No'', diff_walking = ''No'',
      asthma = ''No'', kidney_disease = ''No'', skin_cancer = ''No'', diabetic = ''No'',
      gen_health = ''Excellent'', smoking = ''No'', alcohol = ''No'',
      physical_activity = ''Yes''\<rparr>"

definition example_vector :: dataframe where
  "example_vector =
     [(''BMI'', PyFloat 32), (''Smoking'', PyInt 1), (''AlcoholDrinking'', PyInt 0),
      (''Stroke'', PyInt 0), (''PhysicalHealth'', PyInt 20), (''MentalHealth'', PyInt 5),
      (''DiffWalking'', PyInt 0), (''Sex'', PyInt 1), (''AgeCategory'', PyInt 8),
      (''Diabetic'', PyInt 1), (''PhysicalActivity'', PyInt 1), (''GenHealth'', PyInt 2),
      (''SleepTime'', PyInt 7), (''Asthma'', PyInt 0), (''KidneyDisease'', PyInt 0),
      (''SkinCancer'', PyInt 0)]"

definition example_scaled :: dataframe where
  "example_scaled =
     [(''BMI'', PyFloat (20 / 83)), (''Smoking'', PyInt 1), (''AlcoholDrinking'', PyInt 0),
      (''Stroke'', PyInt 0), (''PhysicalHealth'', PyFloat (2 / 3)),
      (''MentalHealth'', PyFloat (1 / 6)), (''DiffWalking'', PyInt 0), (''Sex'', PyInt 1),
      (''AgeCategory'', PyInt 8), (''Diabetic'', PyInt 1), (''PhysicalActivity'', PyInt 1),
      (''GenHealth'', PyInt 2), (''SleepTime'', PyFloat (6 / 23)), (''Asthma'', PyInt 0),
      (''KidneyDisease'', PyInt 0), (''SkinCancer'', PyInt 0)]"

definition other_params :: scaling_parameters where
  "other_params = \<lparr>data_min = [10, 0, 0, 0], data_max = [50, 31, 31, 12]\<rparr>"

text \<open>A run in which the classifier file cannot be read, and a later run in which it can.\<close>

definition failed_run :: run_input where
  "failed_run =
     \<lparr>run_model = Inl ''missing'', run_scaler = Inr (minmax_transform example_params),
      run_submitted = True, run_form = example_patient\<rparr>"

definition serving_run :: run_input where
  "serving_run =
     \<lparr>run_model = Inr (stub_classifier 1 (82 / 100)),
      run_scaler = Inr (minmax_transform example_params),
      run_submitted = True, run_form = example_patient\<rparr>"

section \<open>Properties\<close>

subsection \<open>Python's \<open>index\<close> on the option lists\<close>

lemma index_from_Inr:
  "index_from i xs v = Inr n \<Longrightarrow>
     i \<le> n \<and> n - i < length xs \<and> xs ! (n - i) = v \<and> (\<forall>j < n - i. xs ! j \<noteq> v)"
proof (induction xs arbitrary: i)
  case Nil
  then show ?case by simp
next
  case (Cons x xs)
  show ?case
  proof (cases "x = v")
    case True
    with Cons.prems show ?thesis by simp
  next
    case False
    with Cons.prems have r: "index_from (Suc i) xs v = Inr n" by simp
    from Cons.IH [OF r] have h: "Suc i \<le> n" "n - Suc i < length xs" "xs ! (n - Suc i) = v"
      "\<forall>j < n - Suc i. xs ! j \<noteq> v" by simp_all
    from h(1) have e: "n - i = Suc (n - Suc i)" by simp
    have "\<forall>j < n - i. (x # xs) ! j \<noteq> v"
    proof (intro allI impI)
      fix j assume "j < n - i"
      then show "(x # xs) ! j \<noteq> v" using False h(4) e by (cases j) auto
    qed
    with h e show ?thesis by simp
  qed
qed

lemma index_from_mem: "v \<in> set xs \<Longrightarrow> \<exists>n. index_from i xs v = Inr n"
  by (induction xs arbitrary: i) auto

lemma index_from_not_mem: "v \<notin> set xs \<Longrightarrow> index_from i xs v = Inl (ValueError v)"
  by (induction xs arbitrary: i) auto

lemma index_py_Inr:
  "index_py xs v = Inr n \<Longrightarrow> n < length xs \<and> xs ! n = v \<and> (\<forall>j < n. xs ! j \<noteq> v)"
  using index_from_Inr [of 0 xs v n] by (simp add: index_py_def)

lemma index_py_mem: "v \<in> set xs \<Longrightarrow> \<exists>n. index_py xs v = Inr n"
  by (simp add: index_py_def index_from_mem)

lemma index_py_not_mem: "v \<notin> set xs \<Longrightarrow> index_py xs v = Inl (ValueError v)"
  by (simp add: index_py_def index_from_not_mem)

lemma option_lists_distinct:
  "distinct age_categories" "distinct diabetic_options" "distinct gen_health_options"
  by (simp_all add: age_categories_def diabetic_options_def gen_health_options_def)

lemma in_domain_indices:
  assumes "in_domain p"
  shows "\<exists>a d g. index_py age_categories (age_category p) = Inr a \<and>
    index_py diabetic_options (diabetic p) = Inr d \<and>
    index_py gen_health_options (gen_health p) = Inr g"
proof -
  from assms have m: "age_category p \<in> set age_categories" "diabetic p \<in> set diabetic_options"
    "gen_health p \<in> set gen_health_options" by (simp_all only: in_domain_def)
  from index_py_mem [OF m(1)] index_py_mem [OF m(2)] index_py_mem [OF m(3)]
  show ?thesis by blast
qed

lemma example_patient_in_domain: "in_domain example_patient"
  by (simp add: in_domain_def example_patient_def age_categories_def diabetic_options_def
      gen_health_options_def)

lemma healthy_patient_in_domain: "in_domain healthy_patient"
  by (simp add: in_domain_def healthy_patient_def age_categories_def diabetic_options_def
      gen_health_options_def)

subsection \<open>Assembly\<close>

lemma input_data_Inr:
  assumes "index_py age_categories (age_category p) = Inr a"
    "index_py diabetic_options (diabetic p) = Inr d"
    "index_py gen_health_options (gen_health p) = Inr g"
  shows "input_data p =
     Inr [(''BMI'', PyFloat (bmi p)),
          (''Smoking'', PyInt (if smoking p = ''Yes'' then 1 else 0)),
          (''AlcoholDrinking'', PyInt (if alcohol p = ''Yes'' then 1 else 0)),
          (''Stroke'', PyInt (if stroke p = ''Yes'' then 1 else 0)),
          (''PhysicalHealth'', PyInt (physical_health p)),
          (''MentalHealth'', PyInt (mental_health p)),
          (''DiffWalking'', PyInt (if diff_walking p = ''Yes'' then 1 else 0)),
          (''Sex'', PyInt (if sex p = ''Male'' then 1 else 0)),
          (''AgeCategory'', PyInt (int a)),
          (''Diabetic'', PyInt (int d)),
          (''PhysicalActivity'', PyInt (if physical_activity p = ''Yes'' then 1 else 0)),
          (''GenHealth'', PyInt (int g)),
          (''SleepTime'', PyInt (sleep_time p)),
          (''Asthma'', PyInt (if asthma p = ''Yes'' then 1 else 0)),
          (''KidneyDisease'', PyInt (if kidney_disease p = ''Yes'' then 1 else 0)),
          (''SkinCancer'', PyInt (if skin_cancer p = ''Yes'' then 1 else 0))]"
  unfolding input_data_def assms sum.case by (rule refl)

text \<open>
  Claim C4. For every in-domain patient input the assembly succeeds and yields exactly the
  sixteen slots BMI, Smoking, AlcoholDrinking, Stroke, PhysicalHealth, MentalHealth,
  DiffWalking, Sex, AgeCategory, Diabetic, PhysicalActivity, GenHealth, SleepTime, Asthma,
  KidneyDisease, SkinCancer, in this order. The slots of age bracket, diabetic status and
  general health hold the zero-based position of the answer in its label list (the labels
  of each list are pairwise different, so there is one such position); the yes/no slots
  hold 1 for Yes and 0 otherwise, Sex holds 1 for Male and 0 otherwise; BMI,
  PhysicalHealth, MentalHealth and SleepTime hold the raw value.
\<close>

theorem assemble_canonical:
  assumes "in_domain p"
  shows "distinct age_categories \<and> distinct diabetic_options \<and> distinct gen_health_options \<and>
   (\<exists>a d g.
     a < length age_categories \<and> age_categories ! a = age_category p \<and>
     d < length diabetic_options \<and> diabetic_options ! d = diabetic p \<and>
     g < length gen_health_options \<and> gen_health_options ! g = gen_health p \<and>
     input_data p =
       Inr [(''BMI'', PyFloat (bmi p)),
            (''Smoking'', PyInt (if smoking p = ''Yes'' then 1 else 0)),
            (''AlcoholDrinking'', PyInt (if alcohol p = ''Yes'' then 1 else 0)),
            (''Stroke'', PyInt (if stroke p = ''Yes'' then 1 else 0)),
            (''PhysicalHealth'', PyInt (physical_health p)),
            (''MentalHealth'', PyInt (mental_health p)),
            (''DiffWalking'', PyInt (if diff_walking p = ''Yes'' then 1 else 0)),
            (''Sex'', PyInt (if sex p = ''Male'' then 1 else 0)),
            (''AgeCategory'', PyInt (int a)),
            (''Diabetic'', PyInt (int d)),
            (''PhysicalActivity'', PyInt (if physical_activity p = ''Yes'' then 1 else 0)),
            (''GenHealth'', PyInt (int g)),
            (''SleepTime'', PyInt (sleep_time p)),
            (''Asthma'', PyInt (if asthma p = ''Yes'' then 1 else 0)),
            (''KidneyDisease'', PyInt (if kidney_disease p = ''Yes'' then 1 else 0)),
            (''SkinCancer'', PyInt (if skin_cancer p = ''Yes'' then 1 else 0))])"
proof -
  from in_domain_indices [OF assms] obtain a d g where
    i: "index_py age_categories (age_category p) = Inr a"
       "index_py diabetic_options (diabetic p) = Inr d"
       "index_py gen_health_options (gen_health p) = Inr g"
    by blast
  note r = index_py_Inr [OF i(1)] index_py_Inr [OF i(2)] index_py_Inr [OF i(3)]
  from r have "a < length age_categories \<and> age_categories ! a = age_category p"
    "d < length diabetic_options \<and> diabetic_options ! d = diabetic p"
    "g < length gen_health_options \<and> gen_health_options ! g = gen_health p"
    by blast+
  with input_data_Inr [OF i] option_lists_distinct show ?thesis by blast
qed

theorem assemble_canonical_witness:
  "in_domain example_patient \<and>
   input_data example_patient =
       Inr [(''BMI'', PyFloat 32), (''Smoking'', PyInt 1), (''AlcoholDrinking'', PyInt 0),
            (''Stroke'', PyInt 0), (''PhysicalHealth'', PyInt 20), (''MentalHealth'', PyInt 5),
            (''DiffWalking'', PyInt 0), (''Sex'', PyInt 1), (''AgeCategory'', PyInt 8),
            (''Diabetic'', PyInt 1), (''PhysicalActivity'', PyInt 1), (''GenHealth'', PyInt 2),
            (''SleepTime'', PyInt 7), (''Asthma'', PyInt 0), (''KidneyDisease'', PyInt 0),
            (''SkinCancer'', PyInt 0)]"
proof -
  have h: "in_domain example_patient"
    by (simp add: in_domain_def example_patient_def age_categories_def diabetic_options_def
        gen_health_options_def)
  from assemble_canonical [OF h] obtain a d g where
    r: "a < length age_categories" "age_categories ! a = age_category example_patient"
       "d < length diabetic_options" "diabetic_options ! d = diabetic example_patient"
       "g < length gen_health_options" "gen_health_options ! g = gen_health example_patient"
    and e: "input_data example_patient =
       Inr [(''BMI'', PyFloat (bmi example_patient)),
            (''Smoking'', PyInt (if smoking example_patient = ''Yes'' then 1 else 0)),
            (''AlcoholDrinking'', PyInt (if alcohol example_patient = ''Yes'' then 1 else 0)),
            (''Stroke'', PyInt (if stroke example_patient = ''Yes'' then 1 else 0)),
            (''PhysicalHealth'', PyInt (physical_health example_patient)),
            (''MentalHealth'', PyInt (mental_health example_patient)),
            (''DiffWalking'', PyInt (if diff_walking example_patient = ''Yes'' then 1 else 0)),
            (''Sex'', PyInt (if sex example_patient = ''Male'' then 1 else 0)),
            (''AgeCategory'', PyInt (int a)),
            (''Diabetic'', PyInt (int d)),
            (''PhysicalActivity'',
               PyInt (if physical_activity example_patient = ''Yes'' then 1 else 0)),
            (''GenHealth'', PyInt (int g)),
            (''SleepTime'', PyInt (sleep_time example_patient)),
            (''Asthma'', PyInt (if asthma example_patient = ''Yes'' then 1 else 0)),
            (''KidneyDisease'', PyInt (if kidney_disease example_patient = ''Yes'' then 1 else 0)),
            (''SkinCancer'', PyInt (if skin_cancer example_patient = ''Yes'' then 1 else 0))]"
    by blast
  have "a = 8"
    using r(1,2)
    by (auto simp add: age_categories_def example_patient_def less_Suc_eq numeral_eq_Suc)
  moreover have "d = 1"
    using r(3,4)
    by (auto simp add: diabetic_options_def example_patient_def less_Suc_eq numeral_eq_Suc)
  moreover have "g = 2"
    using r(5,6)
    by (auto simp add: gen_health_options_def example_patient_def less_Suc_eq numeral_eq_Suc)
  ultimately show ?thesis using h e by (simp add: example_patient_def)
qed

subsection \<open>Data frame columns and scaling\<close>

lemma get_col_mem: "get_col df c = Inr v \<Longrightarrow> c \<in> fst ` set df"
  by (induction df) (auto split: if_splits)

lemma select_cols_mem:
  "select_cols df cs = Inr vs \<Longrightarrow> set cs \<subseteq> fst ` set df \<and> length vs = length cs"
proof (induction cs arbitrary: vs)
  case Nil
  then show ?case by simp
next
  case (Cons c cs)
  from Cons.prems obtain v ws where g: "get_col df c = Inr v"
    and s: "select_cols df cs = Inr ws" and e: "vs = v # ws"
    by (auto split: sum.splits)
  from Cons.IH [OF s] get_col_mem [OF g] e show ?case by simp
qed

lemma set_col_keys: "c \<in> fst ` set df \<Longrightarrow> map fst (set_col c v df) = map fst df"
  by (induction df) force+

lemma set_col_nth:
  "i < length df \<Longrightarrow> fst (df ! i) \<noteq> c \<Longrightarrow> set_col c v df ! i = df ! i"
proof (induction df arbitrary: i)
  case Nil
  then show ?case by simp
next
  case (Cons kw df)
  then show ?case by (cases kw; cases i) auto
qed

lemma get_col_set_col:
  "get_col (set_col c v df) c' = (if c' = c then Inr v else get_col df c')"
  by (induction df) auto

lemma set_cols_frame:
  "set_cols cs vs df = Inr df' \<Longrightarrow> set cs \<subseteq> fst ` set df \<Longrightarrow>
     map fst df' = map fst df \<and> (\<forall>i < length df. fst (df ! i) \<notin> set cs \<longrightarrow> df' ! i = df ! i)"
proof (induction cs vs df rule: set_cols.induct)
  case (1 df)
  then show ?case by simp
next
  case (2 c cs v vs df)
  from "2.prems" have r: "set_cols cs vs (set_col c v df) = Inr df'" by simp
  from "2.prems" have k: "map fst (set_col c v df) = map fst df" by (simp add: set_col_keys)
  then have l: "length (set_col c v df) = length df" by (metis length_map)
  from k have "fst ` set (set_col c v df) = fst ` set df" by (metis list.set_map)
  with "2.prems" have "set cs \<subseteq> fst ` set (set_col c v df)" by simp
  from "2.IH" [OF r this] have ih: "map fst df' = map fst (set_col c v df)"
    "\<forall>i < length (set_col c v df). fst (set_col c v df ! i) \<notin> set cs \<longrightarrow> df' ! i = set_col c v df ! i"
    by simp_all
  have "\<forall>i < length df. fst (df ! i) \<notin> set (c # cs) \<longrightarrow> df' ! i = df ! i"
  proof (intro allI impI)
    fix i assume i: "i < length df" and n: "fst (df ! i) \<notin> set (c # cs)"
    then have s: "set_col c v df ! i = df ! i" by (simp add: set_col_nth)
    with ih(2) i n l show "df' ! i = df ! i" by simp
  qed
  with ih(1) k show ?case by simp
qed simp_all

lemma get_col_set_cols_other:
  "set_cols cs vs df = Inr df' \<Longrightarrow> c \<notin> set cs \<Longrightarrow> get_col df' c = get_col df c"
  by (induction cs vs df rule: set_cols.induct) (auto simp: get_col_set_col)

lemma set_cols_value:
  "set_cols cs vs df = Inr df' \<Longrightarrow> distinct cs \<Longrightarrow>
     length vs = length cs \<and> (\<forall>j < length cs. get_col df' (cs ! j) = Inr (vs ! j))"
proof (induction cs vs df rule: set_cols.induct)
  case (1 df)
  then show ?case by simp
next
  case (2 c cs v vs df)
  from "2.prems" have r: "set_cols cs vs (set_col c v df) = Inr df'" and d: "distinct cs"
    and n: "c \<notin> set cs" by simp_all
  from "2.IH" [OF r d] have ih: "length vs = length cs"
    "\<forall>j < length cs. get_col df' (cs ! j) = Inr (vs ! j)" by simp_all
  from get_col_set_cols_other [OF r n] have h: "get_col df' c = Inr v"
    by (simp add: get_col_set_col)
  have "\<forall>j < length (c # cs). get_col df' ((c # cs) ! j) = Inr ((v # vs) ! j)"
  proof (intro allI impI)
    fix j assume "j < length (c # cs)"
    then show "get_col df' ((c # cs) ! j) = Inr ((v # vs) ! j)"
      using h ih(2) by (cases j) auto
  qed
  with ih(1) show ?case by simp
qed simp_all

lemma features_to_scale_distinct: "distinct features_to_scale"
  by (simp add: features_to_scale_def)

lemma scale_features_frame:
  assumes "scale_features tr fv = Inr fv'"
  shows "map fst fv' = map fst fv"
    and "\<forall>i < length fv. fst (fv ! i) \<notin> set features_to_scale \<longrightarrow> fv' ! i = fv ! i"
    and "\<exists>vs. select_cols fv features_to_scale = Inr vs \<and>
           (\<forall>j < 4. get_col fv' (features_to_scale ! j) = Inr (PyFloat (tr (map to_float vs) ! j)))"
proof -
  from assms obtain vs where s: "select_cols fv features_to_scale = Inr vs"
    and c: "set_cols features_to_scale (map PyFloat (tr (map to_float vs))) fv = Inr fv'"
    by (auto simp: scale_features_def split: sum.splits)
  from select_cols_mem [OF s] have m: "set features_to_scale \<subseteq> fst ` set fv" by simp
  from set_cols_frame [OF c m] show "map fst fv' = map fst fv"
    and "\<forall>i < length fv. fst (fv ! i) \<notin> set features_to_scale \<longrightarrow> fv' ! i = fv ! i"
    by simp_all
  from set_cols_value [OF c features_to_scale_distinct]
  have l: "length (tr (map to_float vs)) = 4"
    and g: "\<forall>j < 4. get_col fv' (features_to_scale ! j) = Inr (map PyFloat (tr (map to_float vs)) ! j)"
    by (simp_all add: features_to_scale_def)
  from l g have "\<forall>j < 4. get_col fv' (features_to_scale ! j) = Inr (PyFloat (tr (map to_float vs) ! j))"
    by simp
  with s show "\<exists>vs. select_cols fv features_to_scale = Inr vs \<and>
           (\<forall>j < 4. get_col fv' (features_to_scale ! j) = Inr (PyFloat (tr (map to_float vs) ! j)))"
    by blast
qed

lemma length4: "length xs = 4 \<Longrightarrow> \<exists>a b c d. xs = [a, b, c, d]"
  by (auto simp: length_Suc_conv numeral_eq_Suc)

lemma scale_features_16:
  assumes "length (tr [to_float v0, to_float v4, to_float v5, to_float v12]) = 4"
  shows "scale_features tr
     [(''BMI'', v0), (''Smoking'', v1), (''AlcoholDrinking'', v2), (''Stroke'', v3),
      (''PhysicalHealth'', v4), (''MentalHealth'', v5), (''DiffWalking'', v6), (''Sex'', v7),
      (''AgeCategory'', v8), (''Diabetic'', v9), (''PhysicalActivity'', v10),
      (''GenHealth'', v11), (''SleepTime'', v12), (''Asthma'', v13), (''KidneyDisease'', v14),
      (''SkinCancer'', v15)] =
   Inr [(''BMI'', PyFloat (tr [to_float v0, to_float v4, to_float v5, to_float v12] ! 0)),
      (''Smoking'', v1), (''AlcoholDrinking'', v2), (''Stroke'', v3),
      (''PhysicalHealth'', PyFloat (tr [to_float v0, to_float v4, to_float v5, to_float v12] ! 1)),
      (''MentalHealth'', PyFloat (tr [to_float v0, to_float v4, to_float v5, to_float v12] ! 2)),
      (''DiffWalking'', v6), (''Sex'', v7),
      (''AgeCategory'', v8), (''Diabetic'', v9), (''PhysicalActivity'', v10),
      (''GenHealth'', v11),
      (''SleepTime'', PyFloat (tr [to_float v0, to_float v4, to_float v5, to_float v12] ! 3)),
      (''Asthma'', v13), (''KidneyDisease'', v14), (''SkinCancer'', v15)]"
proof -
  from length4 [OF assms] obtain a b c d where
    t: "tr [to_float v0, to_float v4, to_float v5, to_float v12] = [a, b, c, d]" by blast
  show ?thesis by (simp add: scale_features_def features_to_scale_def t)
qed

lemma input_data_cases:
  assumes "input_data p = Inr fv"
  shows "\<exists>a d g. index_py age_categories (age_category p) = Inr a \<and>
    index_py diabetic_options (diabetic p) = Inr d \<and>
    index_py gen_health_options (gen_health p) = Inr g"
proof (cases "index_py age_categories (age_category p)")
  case (Inl e)
  with assms show ?thesis by (simp add: input_data_def)
next
  case a: (Inr a)
  show ?thesis
  proof (cases "index_py diabetic_options (diabetic p)")
    case (Inl e)
    with assms a show ?thesis by (simp add: input_data_def)
  next
    case d: (Inr d)
    show ?thesis
    proof (cases "index_py gen_health_options (gen_health p)")
      case (Inl e)
      with assms a d show ?thesis by (simp add: input_data_def)
    next
      case (Inr g)
      with a d show ?thesis by blast
    qed
  qed
qed

lemma minmax_transform_4:
  assumes "length (data_min sp) = 4" "length (data_max sp) = 4"
  shows "minmax_transform sp [x0, x1, x2, x3] =
     [(x0 - data_min sp ! 0) / (data_max sp ! 0 - data_min sp ! 0),
      (x1 - data_min sp ! 1) / (data_max sp ! 1 - data_min sp ! 1),
      (x2 - data_min sp ! 2) / (data_max sp ! 2 - data_min sp ! 2),
      (x3 - data_min sp ! 3) / (data_max sp ! 3 - data_min sp ! 3)]"
proof -
  from length4 [OF assms(1)] obtain a b c d where mn: "data_min sp = [a, b, c, d]" by blast
  from length4 [OF assms(2)] obtain e f g h where mx: "data_max sp = [e, f, g, h]" by blast
  show ?thesis by (simp add: minmax_transform_def mn mx)
qed

lemma scale_features_minmax:
  assumes "input_data p = Inr fv" "length (data_min sp) = 4" "length (data_max sp) = 4"
  shows "scale_features (minmax_transform sp) fv =
        Inr [(''BMI'', PyFloat ((bmi p - data_min sp ! 0) / (data_max sp ! 0 - data_min sp ! 0))),
             fv ! 1, fv ! 2, fv ! 3,
             (''PhysicalHealth'',
                PyFloat ((of_int (physical_health p) - data_min sp ! 1) /
                         (data_max sp ! 1 - data_min sp ! 1))),
             (''MentalHealth'',
                PyFloat ((of_int (mental_health p) - data_min sp ! 2) /
                         (data_max sp ! 2 - data_min sp ! 2))),
             fv ! 6, fv ! 7, fv ! 8, fv ! 9, fv ! 10, fv ! 11,
             (''SleepTime'',
                PyFloat ((of_int (sleep_time p) - data_min sp ! 3) /
                         (data_max sp ! 3 - data_min sp ! 3))),
             fv ! 13, fv ! 14, fv ! 15]"
proof -
  from input_data_cases [OF assms(1)] obtain a d g where
    i: "index_py age_categories (age_category p) = Inr a"
       "index_py diabetic_options (diabetic p) = Inr d"
       "index_py gen_health_options (gen_health p) = Inr g"
    by blast
  from input_data_Inr [OF i] assms(1) have fv: "fv =
     [(''BMI'', PyFloat (bmi p)),
          (''Smoking'', PyInt (if smoking p = ''Yes'' then 1 else 0)),
          (''AlcoholDrinking'', PyInt (if alcohol p = ''Yes'' then 1 else 0)),
          (''Stroke'', PyInt (if stroke p = ''Yes'' then 1 else 0)),
          (''PhysicalHealth'', PyInt (physical_health p)),
          (''MentalHealth'', PyInt (mental_health p)),
          (''DiffWalking'', PyInt (if diff_walking p = ''Yes'' then 1 else 0)),
          (''Sex'', PyInt (if sex p = ''Male'' then 1 else 0)),
          (''AgeCategory'', PyInt (int a)),
          (''Diabetic'', PyInt (int d)),
          (''PhysicalActivity'', PyInt (if physical_activity p = ''Yes'' then 1 else 0)),
          (''GenHealth'', PyInt (int g)),
          (''SleepTime'', PyInt (sleep_time p)),
          (''Asthma'', PyInt (if asthma p = ''Yes'' then 1 else 0)),
          (''KidneyDisease'', PyInt (if kidney_disease p = ''Yes'' then 1 else 0)),
          (''SkinCancer'', PyInt (if skin_cancer p = ''Yes'' then 1 else 0))]"
    by simp
  note m = minmax_transform_4 [OF assms(2,3)]
  have l: "length (minmax_transform sp [to_float (PyFloat (bmi p)), to_float (PyInt (physical_health p)),
             to_float (PyInt (mental_health p)), to_float (PyInt (sleep_time p))]) = 4"
    by (simp only: m) simp
  show ?thesis
    unfolding fv
    by (subst scale_features_16 [of "minmax_transform sp" "PyFloat (bmi p)"
          "PyInt (physical_health p)" "PyInt (mental_health p)" "PyInt (sleep_time p)", OF l])
       (simp add: m)
qed

lemma example_vector_assembled: "input_data example_patient = Inr example_vector"
  by (simp add: input_data_def example_patient_def example_vector_def index_py_def
      age_categories_def diabetic_options_def gen_health_options_def)

lemma example_vector_scaled:
  "scale_features (minmax_transform example_params) example_vector = Inr example_scaled"
  by (simp add: scale_features_def features_to_scale_def example_vector_def example_scaled_def
      minmax_transform_def example_params_def)

text \<open>
  Claim C5. Scaling touches exactly the four columns BMI, PhysicalHealth, MentalHealth and
  SleepTime. For every data frame and every transform: when scaling succeeds the column
  names and their order are unchanged, every column other than these four holds the very
  same value at the same position, and each of the four holds what the transform returned
  for it. With the min-max transform \<open>(x - min) / (max - min)\<close> and four bounds with
  \<open>min < max\<close>, scaling an assembled vector succeeds, the four columns hold the
  normalised values and the other twelve slots are those of the assembled vector.
\<close>

theorem scaling_only_four_fields:
  "(scale_features tr fv = Inr fv' \<longrightarrow>
      map fst fv' = map fst fv \<and>
      (\<forall>i < length fv. fst (fv ! i) \<notin> set features_to_scale \<longrightarrow> fv' ! i = fv ! i) \<and>
      (\<exists>vs. select_cols fv features_to_scale = Inr vs \<and>
         (\<forall>j < 4. get_col fv' (features_to_scale ! j) =
                    Inr (PyFloat (tr (map to_float vs) ! j))))) \<and>
   (input_data p = Inr av \<and> length (data_min sp) = 4 \<and> length (data_max sp) = 4 \<and>
    (\<forall>j < 4. data_min sp ! j < data_max sp ! j) \<longrightarrow>
      scale_features (minmax_transform sp) av =
        Inr [(''BMI'', PyFloat ((bmi p - data_min sp ! 0) / (data_max sp ! 0 - data_min sp ! 0))),
             av ! 1, av ! 2, av ! 3,
             (''PhysicalHealth'',
                PyFloat ((of_int (physical_health p) - data_min sp ! 1) /
                         (data_max sp ! 1 - data_min sp ! 1))),
             (''MentalHealth'',
                PyFloat ((of_int (mental_health p) - data_min sp ! 2) /
                         (data_max sp ! 2 - data_min sp ! 2))),
             av ! 6, av ! 7, av ! 8, av ! 9, av ! 10, av ! 11,
             (''SleepTime'',
                PyFloat ((of_int (sleep_time p) - data_min sp ! 3) /
                         (data_max sp ! 3 - data_min sp ! 3))),
             av ! 13, av ! 14, av ! 15])"
proof (rule conjI; rule impI)
  assume a: "scale_features tr fv = Inr fv'"
  from scale_features_frame [OF a]
  show "map fst fv' = map fst fv \<and>
      (\<forall>i < length fv. fst (fv ! i) \<notin> set features_to_scale \<longrightarrow> fv' ! i = fv ! i) \<and>
      (\<exists>vs. select_cols fv features_to_scale = Inr vs \<and>
         (\<forall>j < 4. get_col fv' (features_to_scale ! j) =
                    Inr (PyFloat (tr (map to_float vs) ! j))))"
    by blast
next
  assume b: "input_data p = Inr av \<and> length (data_min sp) = 4 \<and> length (data_max sp) = 4 \<and>
    (\<forall>j < 4. data_min sp ! j < data_max sp ! j)"
  then have "input_data p = Inr av" "length (data_min sp) = 4" "length (data_max sp) = 4"
    by simp_all
  then show "scale_features (minmax_transform sp) av =
        Inr [(''BMI'', PyFloat ((bmi p - data_min sp ! 0) / (data_max sp ! 0 - data_min sp ! 0))),
             av ! 1, av ! 2, av ! 3,
             (''PhysicalHealth'',
                PyFloat ((of_int (physical_health p) - data_min sp ! 1) /
                         (data_max sp ! 1 - data_min sp ! 1))),
             (''MentalHealth'',
                PyFloat ((of_int (mental_health p) - data_min sp ! 2) /
                         (data_max sp ! 2 - data_min sp ! 2))),
             av ! 6, av ! 7, av ! 8, av ! 9, av ! 10, av ! 11,
             (''SleepTime'',
                PyFloat ((of_int (sleep_time p) - data_min sp ! 3) /
                         (data_max sp ! 3 - data_min sp ! 3))),
             av ! 13, av ! 14, av ! 15]"
    by (rule scale_features_minmax)
qed

theorem scaling_only_four_fields_witness:
  "input_data example_patient = Inr example_vector \<and>
   scale_features (minmax_transform example_params) example_vector = Inr example_scaled \<and>
   length (data_min example_params) = 4 \<and> length (data_max example_params) = 4 \<and>
   data_min example_params ! 0 < data_max example_params ! 0 \<and>
   data_min example_params ! 1 < data_max example_params ! 1 \<and>
   data_min example_params ! 2 < data_max example_params ! 2 \<and>
   data_min example_params ! 3 < data_max example_params ! 3 \<and>
   map fst example_scaled = map fst example_vector \<and>
   example_scaled ! 1 = example_vector ! 1 \<and>
   example_scaled ! 0 = (''BMI'', PyFloat ((32 - 12) / (95 - 12)))"
proof -
  note a = example_vector_assembled
  note s = example_vector_scaled
  have l: "length (data_min example_params) = 4" "length (data_max example_params) = 4"
    by (simp_all add: example_params_def)
  have b: "data_min example_params ! 0 < data_max example_params ! 0"
    "data_min example_params ! 1 < data_max example_params ! 1"
    "data_min example_params ! 2 < data_max example_params ! 2"
    "data_min example_params ! 3 < data_max example_params ! 3"
    by (simp_all add: example_params_def)
  then have q: "\<forall>j < 4. data_min example_params ! j < data_max example_params ! j"
    by (simp add: less_Suc_eq numeral_eq_Suc)
  note t = scaling_only_four_fields [of "minmax_transform example_params" example_vector
      example_scaled example_patient example_vector example_params]
  from t s have k: "map fst example_scaled = map fst example_vector" by blast
  from t s have "\<forall>i < length example_vector.
      fst (example_vector ! i) \<notin> set features_to_scale \<longrightarrow> example_scaled ! i = example_vector ! i"
    by blast
  then have o: "example_scaled ! 1 = example_vector ! 1"
    by (simp add: example_vector_def features_to_scale_def)
  from t a l q have "scale_features (minmax_transform example_params) example_vector =
      Inr [(''BMI'', PyFloat ((bmi example_patient - data_min example_params ! 0) /
                             (data_max example_params ! 0 - data_min example_params ! 0))),
             example_vector ! 1, example_vector ! 2, example_vector ! 3,
             (''PhysicalHealth'',
                PyFloat ((of_int (physical_health example_patient) - data_min example_params ! 1) /
                         (data_max example_params ! 1 - data_min example_params ! 1))),
             (''MentalHealth'',
                PyFloat ((of_int (mental_health example_patient) - data_min example_params ! 2) /
                         (data_max example_params ! 2 - data_min example_params ! 2))),
             example_vector ! 6, example_vector ! 7, example_vector ! 8, example_vector ! 9,
             example_vector ! 10, example_vector ! 11,
             (''SleepTime'',
                PyFloat ((of_int (sleep_time example_patient) - data_min example_params ! 3) /
                         (data_max example_params ! 3 - data_min example_params ! 3))),
             example_vector ! 13, example_vector ! 14, example_vector ! 15]"
    by blast
  with s have "Inr example_scaled = (Inr
           [(''BMI'', PyFloat ((bmi example_patient - data_min example_params ! 0) /
                             (data_max example_params ! 0 - data_min example_params ! 0))),
             example_vector ! 1, example_vector ! 2, example_vector ! 3,
             (''PhysicalHealth'',
                PyFloat ((of_int (physical_health example_patient) - data_min example_params ! 1) /
                         (data_max example_params ! 1 - data_min example_params ! 1))),
             (''MentalHealth'',
                PyFloat ((of_int (mental_health example_patient) - data_min example_params ! 2) /
                         (data_max example_params ! 2 - data_min example_params ! 2))),
             example_vector ! 6, example_vector ! 7, example_vector ! 8, example_vector ! 9,
             example_vector ! 10, example_vector ! 11,
             (''SleepTime'',
                PyFloat ((of_int (sleep_time example_patient) - data_min example_params ! 3) /
                         (data_max example_params ! 3 - data_min example_params ! 3))),
             example_vector ! 13, example_vector ! 14, example_vector ! 15] :: error + dataframe)"
    by (rule trans [OF sym])
  then have "hd (projr (Inr example_scaled :: error + dataframe)) =
      (''BMI'', PyFloat ((bmi example_patient - data_min example_params ! 0) /
                             (data_max example_params ! 0 - data_min example_params ! 0)))"
    by (simp only: sum.sel list.sel)
  then have z: "example_scaled ! 0 = (''BMI'', PyFloat ((32 - 12) / (95 - 12)))"
    by (simp add: example_patient_def example_params_def example_scaled_def)
  from a s l b k o z show ?thesis by blast
qed

lemma scale_features_get_col_other:
  assumes "scale_features tr fv = Inr fv'" "c \<notin> set features_to_scale"
  shows "get_col fv' c = get_col fv c"
proof -
  from assms(1) obtain vs where
    "set_cols features_to_scale (map PyFloat (tr (map to_float vs))) fv = Inr fv'"
    by (auto simp: scale_features_def split: sum.splits)
  from get_col_set_cols_other [OF this assms(2)] show ?thesis .
qed

lemma option_lists_length:
  "length age_categories = 13" "length diabetic_options = 4" "length gen_health_options = 5"
  by (simp_all add: age_categories_def diabetic_options_def gen_health_options_def)

text \<open>
  Claim C10. For every in-domain patient input the assembled vector exists and its
  categorical slots are integers in their fixed ranges: the eight yes/no slots and Sex
  hold 0 or 1, AgeCategory a value from 0 to 12, Diabetic from 0 to 3, GenHealth from 0 to
  4. Whatever the transform, scaling leaves these twelve slots as they are, so the same
  holds of the vector handed to the classifier.
\<close>

theorem categorical_slots_in_range:
  assumes "in_domain p"
  shows "\<exists>fv. input_data p = Inr fv \<and>
    (\<forall>c \<in> {''Smoking'', ''AlcoholDrinking'', ''Stroke'', ''DiffWalking'', ''PhysicalActivity'',
             ''Asthma'', ''KidneyDisease'', ''SkinCancer'', ''Sex''}.
        get_col fv c = Inr (PyInt 0) \<or> get_col fv c = Inr (PyInt 1)) \<and>
    (\<exists>a. get_col fv ''AgeCategory'' = Inr (PyInt a) \<and> 0 \<le> a \<and> a \<le> 12) \<and>
    (\<exists>d. get_col fv ''Diabetic'' = Inr (PyInt d) \<and> 0 \<le> d \<and> d \<le> 3) \<and>
    (\<exists>g. get_col fv ''GenHealth'' = Inr (PyInt g) \<and> 0 \<le> g \<and> g \<le> 4) \<and>
    (\<forall>tr fv'. scale_features tr fv = Inr fv' \<longrightarrow>
       (\<forall>c \<in> {''Smoking'', ''AlcoholDrinking'', ''Stroke'', ''DiffWalking'', ''PhysicalActivity'',
                ''Asthma'', ''KidneyDisease'', ''SkinCancer'', ''Sex'', ''AgeCategory'',
                ''Diabetic'', ''GenHealth''}.
          get_col fv' c = get_col fv c))"
proof -
  from in_domain_indices [OF assms] obtain a d g where
    i: "index_py age_categories (age_category p) = Inr a"
       "index_py diabetic_options (diabetic p) = Inr d"
       "index_py gen_health_options (gen_health p) = Inr g"
    by blast
  define fv where "fv =
     [(''BMI'', PyFloat (bmi p)),
          (''Smoking'', PyInt (if smoking p = ''Yes'' then 1 else 0)),
          (''AlcoholDrinking'', PyInt (if alcohol p = ''Yes'' then 1 else 0)),
          (''Stroke'', PyInt (if stroke p = ''Yes'' then 1 else 0)),
          (''PhysicalHealth'', PyInt (physical_health p)),
          (''MentalHealth'', PyInt (mental_health p)),
          (''DiffWalking'', PyInt (if diff_walking p = ''Yes'' then 1 else 0)),
          (''Sex'', PyInt (if sex p = ''Male'' then 1 else 0)),
          (''AgeCategory'', PyInt (int a)),
          (''Diabetic'', PyInt (int d)),
          (''PhysicalActivity'', PyInt (if physical_activity p = ''Yes'' then 1 else 0)),
          (''GenHealth'', PyInt (int g)),
          (''SleepTime'', PyInt (sleep_time p)),
          (''Asthma'', PyInt (if asthma p = ''Yes'' then 1 else 0)),
          (''KidneyDisease'', PyInt (if kidney_disease p = ''Yes'' then 1 else 0)),
          (''SkinCancer'', PyInt (if skin_cancer p = ''Yes'' then 1 else 0))]"
  have e: "input_data p = Inr fv" unfolding fv_def by (rule input_data_Inr [OF i])
  have k: "get_col fv ''Smoking'' = Inr (PyInt (if smoking p = ''Yes'' then 1 else 0))"
    "get_col fv ''AlcoholDrinking'' = Inr (PyInt (if alcohol p = ''Yes'' then 1 else 0))"
    "get_col fv ''Stroke'' = Inr (PyInt (if stroke p = ''Yes'' then 1 else 0))"
    "get_col fv ''DiffWalking'' = Inr (PyInt (if diff_walking p = ''Yes'' then 1 else 0))"
    "get_col fv ''PhysicalActivity'' = Inr (PyInt (if physical_activity p = ''Yes'' then 1 else 0))"
    "get_col fv ''Asthma'' = Inr (PyInt (if asthma p = ''Yes'' then 1 else 0))"
    "get_col fv ''KidneyDisease'' = Inr (PyInt (if kidney_disease p = ''Yes'' then 1 else 0))"
    "get_col fv ''SkinCancer'' = Inr (PyInt (if skin_cancer p = ''Yes'' then 1 else 0))"
    "get_col fv ''Sex'' = Inr (PyInt (if sex p = ''Male'' then 1 else 0))"
    by (simp_all add: fv_def)
  have b: "\<forall>c \<in> {''Smoking'', ''AlcoholDrinking'', ''Stroke'', ''DiffWalking'', ''PhysicalActivity'',
             ''Asthma'', ''KidneyDisease'', ''SkinCancer'', ''Sex''}.
        get_col fv c = Inr (PyInt 0) \<or> get_col fv c = Inr (PyInt 1)"
    by (intro ballI; elim insertE emptyE; hypsubst; simp only: k; simp)
  from index_py_Inr [OF i(1)] have "get_col fv ''AgeCategory'' = Inr (PyInt (int a)) \<and> 0 \<le> int a \<and> int a \<le> 12"
    by (simp add: fv_def option_lists_length)
  then have ca: "\<exists>a. get_col fv ''AgeCategory'' = Inr (PyInt a) \<and> 0 \<le> a \<and> a \<le> 12" by blast
  from index_py_Inr [OF i(2)] have "get_col fv ''Diabetic'' = Inr (PyInt (int d)) \<and> 0 \<le> int d \<and> int d \<le> 3"
    by (simp add: fv_def option_lists_length)
  then have cd: "\<exists>d. get_col fv ''Diabetic'' = Inr (PyInt d) \<and> 0 \<le> d \<and> d \<le> 3" by blast
  from index_py_Inr [OF i(3)] have "get_col fv ''GenHealth'' = Inr (PyInt (int g)) \<and> 0 \<le> int g \<and> int g \<le> 4"
    by (simp add: fv_def option_lists_length)
  then have cg: "\<exists>g. get_col fv ''GenHealth'' = Inr (PyInt g) \<and> 0 \<le> g \<and> g \<le> 4" by blast
  have n: "\<forall>c \<in> {''Smoking'', ''AlcoholDrinking'', ''Stroke'', ''DiffWalking'', ''PhysicalActivity'',
                ''Asthma'', ''KidneyDisease'', ''SkinCancer'', ''Sex'', ''AgeCategory'',
                ''Diabetic'', ''GenHealth''}. c \<notin> set features_to_scale"
    by (simp add: features_to_scale_def)
  have s: "\<forall>tr fv'. scale_features tr fv = Inr fv' \<longrightarrow>
       (\<forall>c \<in> {''Smoking'', ''AlcoholDrinking'', ''Stroke'', ''DiffWalking'', ''PhysicalActivity'',
                ''Asthma'', ''KidneyDisease'', ''SkinCancer'', ''Sex'', ''AgeCategory'',
                ''Diabetic'', ''GenHealth''}.
          get_col fv' c = get_col fv c)"
  proof (intro allI impI ballI)
    fix tr fv' c
    assume a: "scale_features tr fv = Inr fv'"
      and c: "c \<in> {''Smoking'', ''AlcoholDrinking'', ''Stroke'', ''DiffWalking'', ''PhysicalActivity'',
                ''Asthma'', ''KidneyDisease'', ''SkinCancer'', ''Sex'', ''AgeCategory'',
                ''Diabetic'', ''GenHealth''}"
    from n c have "c \<notin> set features_to_scale" by (rule bspec)
    from scale_features_get_col_other [OF a this] show "get_col fv' c = get_col fv c" .
  qed
  from e b ca cd cg s show ?thesis by (intro exI [of _ fv] conjI)
qed


theorem categorical_slots_in_range_witness:
  "in_domain example_patient \<and>
   (\<exists>a. get_col example_vector ''AgeCategory'' = Inr (PyInt a) \<and> 0 \<le> a \<and> a \<le> 12) \<and>
   (get_col example_vector ''Sex'' = Inr (PyInt 0) \<or>
    get_col example_vector ''Sex'' = Inr (PyInt 1)) \<and>
   get_col example_scaled ''GenHealth'' = get_col example_vector ''GenHealth''"
proof -
  note t = categorical_slots_in_range [OF example_patient_in_domain]
  show ?thesis
  proof (rule exE [OF t], elim conjE)
    fix fv
    assume e: "input_data example_patient = Inr fv"
      and b: "\<forall>c \<in> {''Smoking'', ''AlcoholDrinking'', ''Stroke'', ''DiffWalking'',
             ''PhysicalActivity'', ''Asthma'', ''KidneyDisease'', ''SkinCancer'', ''Sex''}.
          get_col fv c = Inr (PyInt 0) \<or> get_col fv c = Inr (PyInt 1)"
      and a: "\<exists>a. get_col fv ''AgeCategory'' = Inr (PyInt a) \<and> 0 \<le> a \<and> a \<le> 12"
      and s: "\<forall>tr fv'. scale_features tr fv = Inr fv' \<longrightarrow>
         (\<forall>c \<in> {''Smoking'', ''AlcoholDrinking'', ''Stroke'', ''DiffWalking'',
                  ''PhysicalActivity'', ''Asthma'', ''KidneyDisease'', ''SkinCancer'', ''Sex'',
                  ''AgeCategory'', ''Diabetic'', ''GenHealth''}.
            get_col fv' c = get_col fv c)"
    from e example_vector_assembled have fv: "fv = example_vector" by simp
    from b have x: "get_col fv ''Sex'' = Inr (PyInt 0) \<or> get_col fv ''Sex'' = Inr (PyInt 1)"
      by simp
    from example_vector_scaled
    have "scale_features (minmax_transform example_params) fv = Inr example_scaled"
      by (simp only: fv)
    from s [THEN spec, THEN spec, THEN mp, OF this]
    have g: "get_col example_scaled ''GenHealth'' = get_col fv ''GenHealth''" by simp
    from example_patient_in_domain a x g show ?thesis unfolding fv by (intro conjI)
  qed
qed

subsection \<open>The submitted-form run\<close>

lemma risk_factors_spec: "risk_factors fmt p = spec_flags fmt p"
  by (simp add: risk_factors_def spec_flags_def Let_def)

lemma assessment_complete:
  assumes "input_data p = Inr fv" "scale_features tr fv = Inr df"
    "0 \<le> predict_proba m df" "predict_proba m df \<le> 1"
  shows "assessment fmt m tr p =
    ([StHeader ''Risk Assessment Results'',
      StSubheader ''Clinical Prediction'',
      verdict_call (predict m df),
      StSubheader ''Model Confidence'',
      confidence_call fmt (risk_percentage (predict_proba m df)),
      StProgress (predict_proba m df),
      StSubheader ''Clinical Guidance'',
      guidance_call (predict_proba m df),
      StSubheader ''Key Risk Factors'',
      risk_factor_summary (risk_factors fmt p)], None)"
  by (simp add: assessment_def assms Let_def)

lemma assessment_rejected:
  assumes "input_data p = Inr fv" "scale_features tr fv = Inr df"
    "\<not> (0 \<le> predict_proba m df \<and> predict_proba m df \<le> 1)"
  shows "assessment fmt m tr p =
    ([StHeader ''Risk Assessment Results'',
      StSubheader ''Clinical Prediction'',
      verdict_call (predict m df),
      StSubheader ''Model Confidence'',
      confidence_call fmt (risk_percentage (predict_proba m df))], Some StreamlitAPIException)"
  using assms by (simp add: assessment_def Let_def)

lemma assessment_None:
  assumes "assessment fmt m tr p = (out, None)"
  shows "\<exists>fv df. input_data p = Inr fv \<and> scale_features tr fv = Inr df \<and>
     0 \<le> predict_proba m df \<and> predict_proba m df \<le> 1"
proof (cases "input_data p")
  case (Inl e)
  with assms show ?thesis by (simp add: assessment_def)
next
  case fv: (Inr fv)
  show ?thesis
  proof (cases "scale_features tr fv")
    case (Inl e)
    with assms fv show ?thesis by (simp add: assessment_def)
  next
    case df: (Inr df)
    show ?thesis
    proof (cases "0 \<le> predict_proba m df \<and> predict_proba m df \<le> 1")
      case True
      with fv df show ?thesis by blast
    next
      case False
      from assessment_rejected [OF fv df False] assms show ?thesis by simp
    qed
  qed
qed

lemma assessment_None_last:
  assumes "assessment fmt m tr p = (out, None)"
  shows "last out = risk_factor_summary (risk_factors fmt p)"
proof -
  from assessment_None [OF assms] obtain fv df where
    h: "input_data p = Inr fv" "scale_features tr fv = Inr df"
     "0 \<le> predict_proba m df" "predict_proba m df \<le> 1" by blast
  from assessment_complete [OF h, of fmt] assms show ?thesis by auto
qed

lemma fmt_tenths_examples:
  "fmt_tenths 32 = ''32.0''" "fmt_tenths 82 = ''82.0''" "fmt_tenths (457 / 10) = ''45.7''"
  "fmt_tenths 100 = ''100.0''" "fmt_tenths 0 = ''0.0''"
  by code_simp+

lemma risk_percentage_examples:
  "risk_percentage (fl (4567 / 10000)) = fl (457 / 10)" "risk_percentage 1 = 100"
  "risk_percentage 0 = 0" "risk_percentage (82 / 100) = 82" "risk_percentage (fl (82 / 100)) = 82"
  "risk_percentage (fl (25 / 10000)) = fl (2 / 10)" "risk_percentage (fl (5 / 10000)) = 0"
  by code_simp+

lemma stub_classifier_sel:
  "predict (stub_classifier c pr) df = c" "predict_proba (stub_classifier c pr) df = pr"
  by (simp_all add: stub_classifier_def)

lemma example_flags:
  "risk_factors fmt example_patient =
     [''Smoking'', ''Obesity (BMI: '' @ fmt 32 @ '')'', ''Frequent physical health issues'',
      ''Age (60-64)'', ''Diabetes'']"
  by (simp add: risk_factors_def example_patient_def Let_def)

lemma healthy_flags: "risk_factors fmt healthy_patient = []"
  by (simp add: risk_factors_def healthy_patient_def Let_def)

text \<open>
  Claim C3. For every patient input the risk-factor list is exactly the flags of those of
  the five conditions that hold, in the fixed order: smoking is Yes; BMI at least 30 (the
  flag carries the BMI as formatted); physical-health days at least 15; the age bracket is
  one of 55-59, 60-64, 65-69, 70-74, 75-79, 80 or older (the flag carries the bracket);
  diabetic status is not No. An empty list is rendered as the explicit text
  "No major risk factors identified", a non-empty one as the flags joined by commas, and
  this is the last call of every run that completes.
\<close>

theorem risk_factor_flags:
  "risk_factors fmt p = spec_flags fmt p \<and>
   risk_factor_summary (risk_factors fmt p) =
     (if spec_flags fmt p = [] then StWrite ''No major risk factors identified''
      else StWrite (''Identified risk factors: '' @ join '', '' (spec_flags fmt p))) \<and>
   (assessment fmt m tr p = (out, None) \<longrightarrow> last out = risk_factor_summary (spec_flags fmt p))"
proof (intro conjI impI)
  show "risk_factors fmt p = spec_flags fmt p" by (rule risk_factors_spec)
  show "risk_factor_summary (risk_factors fmt p) =
     (if spec_flags fmt p = [] then StWrite ''No major risk factors identified''
      else StWrite (''Identified risk factors: '' @ join '', '' (spec_flags fmt p)))"
    unfolding risk_factors_spec by (simp only: risk_factor_summary_def) simp
  assume "assessment fmt m tr p = (out, None)"
  from assessment_None_last [OF this] show "last out = risk_factor_summary (spec_flags fmt p)"
    by (simp only: risk_factors_spec)
qed

theorem risk_factor_flags_witness:
  "assessment fmt_tenths (stub_classifier 1 (82 / 100)) (minmax_transform example_params)
     example_patient =
    ([StHeader ''Risk Assessment Results'',
      StSubheader ''Clinical Prediction'',
      StError ''**At Risk of Heart Disease**'',
      StSubheader ''Model Confidence'',
      StMarkdown (''<h1 style='' @ [CHR 0x27] @ ''text-align: center;'' @ [CHR 0x27] @
                  ''>82.0%</h1>''),
      StProgress (82 / 100),
      StSubheader ''Clinical Guidance'',
      StWarning elevated_text,
      StSubheader ''Key Risk Factors'',
      StWrite (''Identified risk factors: Smoking, Obesity (BMI: 32.0), '' @
               ''Frequent physical health issues, Age (60-64), Diabetes'')], None) \<and>
   spec_flags fmt_tenths example_patient =
     [''Smoking'', ''Obesity (BMI: 32.0)'', ''Frequent physical health issues'', ''Age (60-64)'',
      ''Diabetes''] \<and>
   risk_factor_summary (spec_flags fmt_tenths example_patient) =
     StWrite (''Identified risk factors: Smoking, Obesity (BMI: 32.0), '' @
              ''Frequent physical health issues, Age (60-64), Diabetes'') \<and>
   spec_flags fmt_tenths healthy_patient = [] \<and>
   risk_factor_summary (risk_factors fmt_tenths healthy_patient) =
     StWrite ''No major risk factors identified''"
proof -
  have r: "assessment fmt_tenths (stub_classifier 1 (82 / 100)) (minmax_transform example_params)
     example_patient =
    ([StHeader ''Risk Assessment Results'',
      StSubheader ''Clinical Prediction'',
      StError ''**At Risk of Heart Disease**'',
      StSubheader ''Model Confidence'',
      StMarkdown (''<h1 style='' @ [CHR 0x27] @ ''text-align: center;'' @ [CHR 0x27] @
                  ''>82.0%</h1>''),
      StProgress (82 / 100),
      StSubheader ''Clinical Guidance'',
      StWarning elevated_text,
      StSubheader ''Key Risk Factors'',
      StWrite (''Identified risk factors: Smoking, Obesity (BMI: 32.0), '' @
               ''Frequent physical health issues, Age (60-64), Diabetes'')], None)"
    by code_simp
  note t1 = risk_factor_flags [of fmt_tenths example_patient "stub_classifier 1 (82 / 100)"
      "minmax_transform example_params" _]
  note t2 = risk_factor_flags [of fmt_tenths healthy_patient]
  from t1 have "spec_flags fmt_tenths example_patient = risk_factors fmt_tenths example_patient"
    by simp
  then have f1: "spec_flags fmt_tenths example_patient =
     [''Smoking'', ''Obesity (BMI: 32.0)'', ''Frequent physical health issues'', ''Age (60-64)'',
      ''Diabetes'']"
    by (simp add: example_flags fmt_tenths_examples)
  from t2 have "spec_flags fmt_tenths healthy_patient = risk_factors fmt_tenths healthy_patient"
    by simp
  then have f2: "spec_flags fmt_tenths healthy_patient = []" by (simp add: healthy_flags)
  from t2 [THEN conjunct2, THEN conjunct1] f2
  have f3: "risk_factor_summary (risk_factors fmt_tenths healthy_patient) =
     StWrite ''No major risk factors identified''"
    by simp
  from t1 [THEN conjunct2, THEN conjunct2, THEN mp, OF r]
  have f4: "risk_factor_summary (spec_flags fmt_tenths example_patient) =
     StWrite (''Identified risk factors: Smoking, Obesity (BMI: 32.0), '' @
              ''Frequent physical health issues, Age (60-64), Diabetes'')"
    by simp
  from r f1 f4 f2 f3 show ?thesis by (intro conjI)
qed


lemma obesity_flag_iff:
  "''Obesity (BMI: '' @ fmt (bmi p) @ '')'' \<in> set (risk_factors fmt p) \<longleftrightarrow> 30 \<le> bmi p"
  by (simp add: risk_factors_def Let_def)

text \<open>
  Claim C9. The risk-factor list is a function of the raw patient input only. Two runs on
  the same input, with whatever classifiers and scalers, render the same risk-factor
  summary, namely that of \<open>risk_factors\<close>, which takes neither the classifier nor the
  scaler nor the scaled vector; and the obesity flag is present exactly when the raw BMI
  is at least 30.
\<close>

theorem risk_factors_raw_input_only:
  "(assessment fmt m1 t1 p = (out1, None) \<and> assessment fmt m2 t2 p = (out2, None) \<longrightarrow>
      last out1 = risk_factor_summary (risk_factors fmt p) \<and> last out2 = last out1) \<and>
   (''Obesity (BMI: '' @ fmt (bmi p) @ '')'' \<in> set (risk_factors fmt p) \<longleftrightarrow> 30 \<le> bmi p)"
proof (rule conjI)
  show "assessment fmt m1 t1 p = (out1, None) \<and> assessment fmt m2 t2 p = (out2, None) \<longrightarrow>
      last out1 = risk_factor_summary (risk_factors fmt p) \<and> last out2 = last out1"
  proof
    assume a: "assessment fmt m1 t1 p = (out1, None) \<and> assessment fmt m2 t2 p = (out2, None)"
    from a assessment_None_last [of fmt m1 t1 p out1]
    have "last out1 = risk_factor_summary (risk_factors fmt p)" by simp
    moreover from a assessment_None_last [of fmt m2 t2 p out2]
    have "last out2 = risk_factor_summary (risk_factors fmt p)" by simp
    ultimately show "last out1 = risk_factor_summary (risk_factors fmt p) \<and> last out2 = last out1"
      by simp
  qed
  show "''Obesity (BMI: '' @ fmt (bmi p) @ '')'' \<in> set (risk_factors fmt p) \<longleftrightarrow> 30 \<le> bmi p"
    by (rule obesity_flag_iff)
qed


theorem risk_factors_raw_input_only_witness:
  "snd (assessment fmt_tenths (stub_classifier 1 (82 / 100)) (minmax_transform example_params)
          example_patient) = None \<and>
   snd (assessment fmt_tenths (stub_classifier 0 (1 / 10)) (minmax_transform other_params)
          example_patient) = None \<and>
   last (fst (assessment fmt_tenths (stub_classifier 0 (1 / 10)) (minmax_transform other_params)
          example_patient)) =
   last (fst (assessment fmt_tenths (stub_classifier 1 (82 / 100))
          (minmax_transform example_params) example_patient)) \<and>
   last (fst (assessment fmt_tenths (stub_classifier 1 (82 / 100))
          (minmax_transform example_params) example_patient)) =
     risk_factor_summary (risk_factors fmt_tenths example_patient) \<and>
   ''Obesity (BMI: 32.0)'' \<in> set (risk_factors fmt_tenths example_patient) \<and>
   get_col example_scaled ''BMI'' = Inr (PyFloat (20 / 83))"
proof -
  let ?A = "assessment fmt_tenths (stub_classifier 1 (82 / 100)) (minmax_transform example_params)
          example_patient"
  let ?B = "assessment fmt_tenths (stub_classifier 0 (1 / 10)) (minmax_transform other_params)
          example_patient"
  have a: "snd ?A = None" by code_simp
  have b: "snd ?B = None" by code_simp
  from a have a': "?A = (fst ?A, None)" by (metis prod.collapse)
  from b have b': "?B = (fst ?B, None)" by (metis prod.collapse)
  note t = risk_factors_raw_input_only [of fmt_tenths "stub_classifier 1 (82 / 100)"
      "minmax_transform example_params" example_patient "fst ?A" "stub_classifier 0 (1 / 10)"
      "minmax_transform other_params" "fst ?B"]
  from t [THEN conjunct1, THEN mp, OF conjI [OF a' b']]
  have l: "last (fst ?A) = risk_factor_summary (risk_factors fmt_tenths example_patient)"
    "last (fst ?B) = last (fst ?A)" by simp_all
  have "30 \<le> bmi example_patient" by (simp add: example_patient_def)
  with t [THEN conjunct2]
  have "''Obesity (BMI: '' @ fmt_tenths (bmi example_patient) @ '')'' \<in>
          set (risk_factors fmt_tenths example_patient)"
    by simp
  moreover have "''Obesity (BMI: '' @ fmt_tenths (bmi example_patient) @ '')'' = ''Obesity (BMI: 32.0)''"
    by code_simp
  ultimately have o: "''Obesity (BMI: 32.0)'' \<in> set (risk_factors fmt_tenths example_patient)"
    by simp
  have g: "get_col example_scaled ''BMI'' = Inr (PyFloat (20 / 83))"
    by (simp add: example_scaled_def)
  from a b l(2) l(1) o g show ?thesis by (intro conjI)
qed

subsection \<open>Rounding, verdict and guidance\<close>

lemma round_half_even_near: "\<bar>of_int (round_half_even y) - y\<bar> \<le> 1 / 2"
proof -
  have "of_int \<lfloor>y\<rfloor> \<le> y" "y < of_int \<lfloor>y\<rfloor> + 1" by linarith+
  then show ?thesis by (auto simp: round_half_even_def Let_def)
qed

lemma round_half_even_tie:
  "\<bar>of_int (round_half_even y) - y\<bar> = 1 / 2 \<Longrightarrow> even (round_half_even y)"
proof -
  have "of_int \<lfloor>y\<rfloor> \<le> y" "y < of_int \<lfloor>y\<rfloor> + 1" by linarith+
  then show "\<bar>of_int (round_half_even y) - y\<bar> = 1 / 2 \<Longrightarrow> even (round_half_even y)"
    by (auto simp: round_half_even_def Let_def split: if_splits)
qed

lemma round_half_even_nonneg: "0 \<le> y \<Longrightarrow> 0 \<le> round_half_even y"
  by (auto simp: round_half_even_def Let_def)

lemma round_half_even_le:
  assumes "y \<le> of_int n"
  shows "round_half_even y \<le> n"
proof -
  from assms have f: "\<lfloor>y\<rfloor> \<le> n" by (simp add: floor_le_iff)
  show ?thesis
  proof (cases "y = of_int \<lfloor>y\<rfloor>")
    case True
    then have "y - of_int \<lfloor>y\<rfloor> = 0" by simp
    then have "round_half_even y = \<lfloor>y\<rfloor>" by (simp add: round_half_even_def Let_def)
    with f show ?thesis by simp
  next
    case False
    have "of_int \<lfloor>y\<rfloor> \<le> y" by linarith
    with False have "of_int \<lfloor>y\<rfloor> < y" by linarith
    with assms have "(of_int \<lfloor>y\<rfloor> :: rat) < of_int n" by linarith
    then have "\<lfloor>y\<rfloor> < n" by simp
    moreover have "round_half_even y \<le> \<lfloor>y\<rfloor> + 1" by (simp add: round_half_even_def Let_def)
    ultimately show ?thesis by linarith
  qed
qed

lemma round_half_even_zero: "round_half_even 0 = 0"
  by (simp add: round_half_even_def)

lemma ilog2_lower:
  assumes "0 < x"
  shows "2 powi (ilog2 x) \<le> x"
proof -
  obtain n d where q: "quotient_of x = (n, d)" by (cases "quotient_of x")
  from quotient_of_denom_pos [OF q] have d: "0 < d" .
  from quotient_of_div [OF q] have x: "x = of_int n / of_int d" .
  from assms x d have n: "0 < n" by (simp add: zero_less_divide_iff)
  let ?e = "bitlen n - bitlen d"
  show ?thesis
  proof (cases "2 powi ?e \<le> x")
    case True
    then show ?thesis by (simp add: ilog2_def q)
  next
    case False
    then have i: "ilog2 x = ?e - 1" by (simp add: ilog2_def q)
    from bitlen_bounds [OF n] have "2 ^ nat (bitlen n - 1) \<le> n" by simp
    then have "(of_int (2 ^ nat (bitlen n - 1)) :: rat) \<le> of_int n" by (simp only: of_int_le_iff)
    then have a: "(2 :: rat) ^ nat (bitlen n - 1) \<le> of_int n" by simp
    from bitlen_bounds [OF d] have "d \<le> 2 ^ nat (bitlen d)" by simp
    then have "(of_int d :: rat) \<le> of_int (2 ^ nat (bitlen d))" by (simp only: of_int_le_iff)
    then have b: "(of_int d :: rat) \<le> 2 ^ nat (bitlen d)" by simp
    from n have bn: "1 \<le> bitlen n" using bitlen_eq_zero_iff [of n] bitlen_nonneg [of n] by linarith
    have "(2 :: rat) powi (?e - 1) = 2 powi (bitlen n - 1) / 2 powi (bitlen d)"
      using power_int_diff [of "2 :: rat" "bitlen n - 1" "bitlen d"] by (simp add: algebra_simps)
    also have "\<dots> = 2 ^ nat (bitlen n - 1) / 2 ^ nat (bitlen d)"
      using bn bitlen_nonneg [of d] by (simp add: power_int_nonneg_exp)
    also have "\<dots> \<le> of_int n / of_int d"
      using a b d n by (intro frac_le) simp_all
    finally have "(2 :: rat) powi (?e - 1) \<le> x" by (simp only: x [symmetric])
    then show ?thesis by (simp only: i)
  qed
qed

lemma fl_zero: "fl 0 = 0"
  by (simp add: fl_def round_half_even_zero)

lemma fl_nonneg: "0 \<le> x \<Longrightarrow> 0 \<le> fl x"
  by (simp add: fl_def Let_def round_half_even_nonneg)

lemma fl_le_int:
  assumes "0 < x" "x \<le> of_int N" "N \<le> 2 ^ 52"
  shows "fl x \<le> of_int N"
proof -
  define e where "e = max (ilog2 \<bar>x\<bar> - 52) (- 1074)"
  from assms(3) have "(of_int N :: rat) \<le> of_int (2 ^ 52)" by (simp only: of_int_le_iff)
  with assms(2) have "x \<le> 2 powi 52" by simp
  with ilog2_lower [OF assms(1)] have "(2 :: rat) powi (ilog2 x) \<le> 2 powi 52" by linarith
  then have "ilog2 x \<le> 52" by (rule power_int_le_imp_le_exp [rotated]) simp_all
  with assms(1) have e0: "e \<le> 0" by (simp add: e_def)
  define k where "k = nat (- e)"
  from e0 have p: "(2 :: rat) powi e = 1 / 2 ^ k"
    by (simp add: power_int_def k_def field_simps)
  from assms(2) have "x * 2 ^ k \<le> of_int N * 2 ^ k" by simp
  then have "x / 2 powi e \<le> of_int (N * 2 ^ k)" by (simp add: p)
  from round_half_even_le [OF this]
  have "(of_int (round_half_even (x / 2 powi e)) :: rat) \<le> of_int (N * 2 ^ k)"
    by (simp only: of_int_le_iff)
  then have "of_int (round_half_even (x / 2 powi e)) * (2 :: rat) powi e \<le> of_int N"
    by (simp add: p field_simps)
  then show ?thesis by (simp add: fl_def Let_def e_def)
qed

lemma fl_error:
  assumes "0 \<le> x" "x \<le> B" "1 \<le> B"
  shows "\<bar>fl x - x\<bar> \<le> B / 2 ^ 53"
proof (cases "x = 0")
  case True
  with assms(3) show ?thesis by (simp add: fl_zero)
next
  case False
  with assms(1) have pos: "0 < x" by simp
  define e where "e = max (ilog2 \<bar>x\<bar> - 52) (- 1074)"
  let ?m = "x / 2 powi e"
  have p: "(0 :: rat) < 2 powi e" by simp
  have "fl x - x = (of_int (round_half_even ?m) - ?m) * 2 powi e"
    by (simp add: fl_def Let_def e_def algebra_simps)
  then have "\<bar>fl x - x\<bar> = \<bar>of_int (round_half_even ?m) - ?m\<bar> * 2 powi e"
    by (simp add: abs_mult)
  also have "\<dots> \<le> 1 / 2 * 2 powi e"
    using round_half_even_near [of ?m] p by (intro mult_right_mono) simp_all
  finally have err: "\<bar>fl x - x\<bar> \<le> 2 powi e / 2" by simp
  have "(2 :: rat) powi e \<le> B / 2 ^ 52"
  proof (cases "- 1074 \<le> ilog2 x - 52")
    case True
    with pos have "e = ilog2 x - 52" by (simp add: e_def)
    then have "(2 :: rat) powi e = 2 powi (ilog2 x) / 2 powi 52"
      by (simp add: power_int_diff)
    also have "\<dots> \<le> x / 2 powi 52"
      using ilog2_lower [OF pos] by (intro divide_right_mono) simp_all
    also have "\<dots> \<le> B / 2 powi 52"
      using assms(2) by (intro divide_right_mono) simp_all
    finally show ?thesis by simp
  next
    case False
    with pos have "e = - 1074" by (simp add: e_def)
    then have "(2 :: rat) powi e \<le> 2 powi (- 52)"
      by (simp only:) (rule power_int_increasing, simp_all)
    also have "\<dots> = 1 / 2 ^ 52" by (simp add: power_int_def field_simps)
    also have "\<dots> \<le> B / 2 ^ 52" using assms(3) by (intro divide_right_mono) simp_all
    finally show ?thesis .
  qed
  with err show ?thesis by simp
qed

lemma fl_le_nat:
  assumes "0 \<le> x" "x \<le> of_int N" "0 \<le> N" "N \<le> 2 ^ 52"
  shows "fl x \<le> of_int N"
proof (cases "x = 0")
  case True
  with assms(3) show ?thesis by (simp add: fl_zero)
next
  case False
  with assms(1) have "0 < x" by simp
  from fl_le_int [OF this assms(2,4)] show ?thesis .
qed

lemma risk_percentage_nearest:
  "risk_percentage pr = fl (of_int (round_half_even (fl (fl (pr * 100) * 10))) / 10)"
  by (simp add: risk_percentage_def py_round_def)

lemma risk_percentage_range:
  assumes "0 \<le> pr" "pr \<le> 1"
  defines "k \<equiv> round_half_even (fl (fl (pr * 100) * 10))"
  shows "0 \<le> k" "k \<le> 1000" "\<bar>of_int k / 10 - pr * 100\<bar> \<le> 1 / 20 + 1 / 10 ^ 13"
    "0 \<le> risk_percentage pr" "risk_percentage pr \<le> 100"
proof -
  let ?q = "fl (pr * 100)"
  let ?y = "fl (?q * 10)"
  from assms(1,2) have x: "0 \<le> pr * 100" "pr * 100 \<le> of_int 100" "pr * 100 \<le> 100" by simp_all
  from fl_nonneg [OF x(1)] have q0: "0 \<le> ?q" .
  from fl_le_nat [OF x(1,2)] have q1: "?q \<le> 100" by simp
  from fl_error [OF x(1,3)] have qe: "\<bar>?q - pr * 100\<bar> \<le> 100 / 2 ^ 53" by simp
  from q0 q1 have z: "0 \<le> ?q * 10" "?q * 10 \<le> of_int 1000" "?q * 10 \<le> 1000" by simp_all
  from fl_nonneg [OF z(1)] have y0: "0 \<le> ?y" .
  from fl_le_nat [OF z(1,2)] have y1: "?y \<le> of_int 1000" by simp
  from fl_error [OF z(1,3)] have ye: "\<bar>?y - ?q * 10\<bar> \<le> 1000 / 2 ^ 53" by simp
  from round_half_even_nonneg [OF y0] show k0: "0 \<le> k" by (simp add: k_def)
  from round_half_even_le [OF y1] show k1: "k \<le> 1000" by (simp add: k_def)
  from round_half_even_near [of ?y] have ke: "\<bar>of_int k - ?y\<bar> \<le> 1 / 2" by (simp add: k_def)
  have "\<bar>of_int k - pr * 1000\<bar> \<le> 1 / 2 + 1000 / 2 ^ 53 + 10 * (100 / 2 ^ 53)"
    using ke ye qe by linarith
  also have "\<dots> \<le> 1 / 2 + 1 / 10 ^ 12" by simp
  finally have b: "\<bar>of_int k - pr * 1000\<bar> \<le> 1 / 2 + 1 / 10 ^ 12" .
  have "of_int k / 10 - pr * 100 = (of_int k - pr * 1000) / 10" by simp
  then have "\<bar>of_int k / 10 - pr * 100\<bar> = \<bar>(of_int k - pr * 1000) / 10\<bar>" by (simp only:)
  also have "\<dots> = \<bar>of_int k - pr * 1000\<bar> / 10" by (simp only: abs_divide abs_numeral)
  also have "\<dots> \<le> (1 / 2 + 1 / 10 ^ 12) / 10" using b by (intro divide_right_mono) simp_all
  also have "\<dots> = 1 / 20 + 1 / 10 ^ 13" by simp
  finally show "\<bar>of_int k / 10 - pr * 100\<bar> \<le> 1 / 20 + 1 / 10 ^ 13" .
  from k0 k1 have w: "(0 :: rat) \<le> of_int k / 10" "(of_int k / 10 :: rat) \<le> of_int 100"
    by simp_all
  have r: "risk_percentage pr = fl (of_int k / 10)"
    by (simp add: risk_percentage_nearest k_def)
  from fl_nonneg [OF w(1)] show "0 \<le> risk_percentage pr" by (simp add: r)
  from fl_le_nat [OF w] show "risk_percentage pr \<le> 100" by (simp add: r)
qed

lemma on_submit_complete:
  assumes "input_data p = Inr fv" "scale_features tr fv = Inr df"
    "0 \<le> predict_proba m df" "predict_proba m df \<le> 1"
  shows "on_submit fmt m tr p =
     [StHeader ''Risk Assessment Results'',
      StSubheader ''Clinical Prediction'',
      verdict_call (predict m df),
      StSubheader ''Model Confidence'',
      confidence_call fmt (risk_percentage (predict_proba m df)),
      StProgress (predict_proba m df),
      StSubheader ''Clinical Guidance'',
      guidance_call (predict_proba m df),
      StSubheader ''Key Risk Factors'',
      risk_factor_summary (risk_factors fmt p)]"
  by (simp add: on_submit_def assessment_complete [OF assms])

lemma on_submit_rejected:
  assumes "input_data p = Inr fv" "scale_features tr fv = Inr df"
    "\<not> (0 \<le> predict_proba m df \<and> predict_proba m df \<le> 1)"
  shows "on_submit fmt m tr p =
     [StHeader ''Risk Assessment Results'',
      StSubheader ''Clinical Prediction'',
      verdict_call (predict m df),
      StSubheader ''Model Confidence'',
      confidence_call fmt (risk_percentage (predict_proba m df)),
      StError failed_text]"
  by (simp add: on_submit_def assessment_rejected [OF assms])

lemma on_submit_confidence:
  assumes "input_data p = Inr fv" "scale_features tr fv = Inr df"
  shows "on_submit fmt m tr p ! 4 = confidence_call fmt (risk_percentage (predict_proba m df))"
proof (cases "0 \<le> predict_proba m df \<and> predict_proba m df \<le> 1")
  case True
  then have "0 \<le> predict_proba m df" "predict_proba m df \<le> 1" by simp_all
  from on_submit_complete [OF assms this] show ?thesis by simp
next
  case False
  from on_submit_rejected [OF assms False] show ?thesis by simp
qed


text \<open>
  Claim C6. The risk percentage is \<open>round(probability * 100, 1)\<close> as line 120 computes it on
  floats. In every run that reaches the classifier the fifth call shows this value for the
  classifier's own probability. The value is the float nearest to \<open>k / 10\<close>, where \<open>k\<close> is
  the integer nearest to ten times the float product, a tie going to the even integer. For
  a probability between 0 and 1 it lies between 0 and 100, \<open>k\<close> lies between 0 and 1000
  and \<open>k / 10\<close> is within 0.05 (and a float error below \<open>10 ^ -13\<close>) of a hundred times the
  probability. The float 0.4567 gives the float 45.7, probability 1 gives 100.0 and
  probability 0 gives 0.0.
\<close>

theorem risk_percentage_rounding:
  "(input_data p = Inr fv \<and> scale_features tr fv = Inr df \<longrightarrow>
      on_submit fmt m tr p ! 4 =
        confidence_call fmt (py_round (fl (predict_proba m df * 100)) 1)) \<and>
   (\<exists>k. risk_percentage pr = fl (of_int k / 10) \<and>
        \<bar>of_int k - fl (fl (pr * 100) * 10)\<bar> \<le> 1 / 2 \<and>
        (\<bar>of_int k - fl (fl (pr * 100) * 10)\<bar> = 1 / 2 \<longrightarrow> even k)) \<and>
   (0 \<le> pr \<and> pr \<le> 1 \<longrightarrow>
      risk_percentage pr = py_round (fl (pr * 100)) 1 \<and>
      0 \<le> risk_percentage pr \<and> risk_percentage pr \<le> 100 \<and>
      (\<exists>k. 0 \<le> k \<and> k \<le> 1000 \<and> risk_percentage pr = fl (of_int k / 10) \<and>
           \<bar>of_int k / 10 - pr * 100\<bar> \<le> 1 / 20 + 1 / 10 ^ 13)) \<and>
   risk_percentage (fl (4567 / 10000)) = fl (457 / 10) \<and>
   risk_percentage 1 = 100 \<and>
   risk_percentage 0 = 0"
proof (intro conjI impI)
  assume "input_data p = Inr fv \<and> scale_features tr fv = Inr df"
  then have "input_data p = Inr fv" "scale_features tr fv = Inr df" by simp_all
  from on_submit_confidence [OF this]
  show "on_submit fmt m tr p ! 4 =
      confidence_call fmt (py_round (fl (predict_proba m df * 100)) 1)"
    by (simp add: risk_percentage_def)
next
  let ?y = "fl (fl (pr * 100) * 10)"
  from risk_percentage_nearest round_half_even_near [of ?y] round_half_even_tie [of ?y]
  show "\<exists>k. risk_percentage pr = fl (of_int k / 10) \<and>
        \<bar>of_int k - ?y\<bar> \<le> 1 / 2 \<and> (\<bar>of_int k - ?y\<bar> = 1 / 2 \<longrightarrow> even k)"
    by blast
next
  assume "0 \<le> pr \<and> pr \<le> 1"
  then have b: "0 \<le> pr" "pr \<le> 1" by simp_all
  show "risk_percentage pr = py_round (fl (pr * 100)) 1" by (simp add: risk_percentage_def)
  from risk_percentage_range [OF b]
  show "0 \<le> risk_percentage pr" "risk_percentage pr \<le> 100" by simp_all
  from risk_percentage_range [OF b] risk_percentage_nearest [of pr]
  show "\<exists>k. 0 \<le> k \<and> k \<le> 1000 \<and> risk_percentage pr = fl (of_int k / 10) \<and>
           \<bar>of_int k / 10 - pr * 100\<bar> \<le> 1 / 20 + 1 / 10 ^ 13"
    by blast
next
  show "risk_percentage (fl (4567 / 10000)) = fl (457 / 10)" "risk_percentage 1 = 100"
    "risk_percentage 0 = 0"
    by (rule risk_percentage_examples)+
qed

theorem risk_percentage_rounding_witness:
  "input_data example_patient = Inr example_vector \<and>
   scale_features (minmax_transform example_params) example_vector = Inr example_scaled \<and>
   on_submit fmt_tenths (stub_classifier 1 (fl (4567 / 10000))) (minmax_transform example_params)
       example_patient ! 4 =
     StMarkdown (''<h1 style='' @ [CHR 0x27] @ ''text-align: center;'' @ [CHR 0x27] @
                 ''>45.7%</h1>'') \<and>
   0 \<le> fl (25 / 10000) \<and> fl (25 / 10000) \<le> 1 \<and>
   fl (fl (fl (25 / 10000) * 100) * 10) = 5 / 2 \<and>
   risk_percentage (fl (25 / 10000)) = fl (2 / 10) \<and>
   0 \<le> risk_percentage (fl (25 / 10000)) \<and>
   risk_percentage (fl (25 / 10000)) \<le> 100"
proof -
  note t = risk_percentage_rounding [of example_patient example_vector
      "minmax_transform example_params" example_scaled fmt_tenths
      "stub_classifier 1 (fl (4567 / 10000))" "fl (25 / 10000)"]
  from t [THEN conjunct1, THEN mp, OF conjI [OF example_vector_assembled example_vector_scaled]]
  have "on_submit fmt_tenths (stub_classifier 1 (fl (4567 / 10000)))
       (minmax_transform example_params) example_patient ! 4 =
     confidence_call fmt_tenths
       (py_round (fl (predict_proba (stub_classifier 1 (fl (4567 / 10000))) example_scaled * 100))
          1)" .
  moreover have "confidence_call fmt_tenths
       (py_round (fl (predict_proba (stub_classifier 1 (fl (4567 / 10000))) example_scaled * 100))
          1) =
     StMarkdown (''<h1 style='' @ [CHR 0x27] @ ''text-align: center;'' @ [CHR 0x27] @
                 ''>45.7%</h1>'')"
    by code_simp
  ultimately have c: "on_submit fmt_tenths (stub_classifier 1 (fl (4567 / 10000)))
       (minmax_transform example_params) example_patient ! 4 =
     StMarkdown (''<h1 style='' @ [CHR 0x27] @ ''text-align: center;'' @ [CHR 0x27] @
                 ''>45.7%</h1>'')"
    by (rule trans)
  have h: "0 \<le> fl (25 / 10000)" "fl (25 / 10000) \<le> 1" by code_simp+
  have y: "fl (fl (fl (25 / 10000) * 100) * 10) = 5 / 2" by code_simp
  from t [THEN conjunct2, THEN conjunct1] obtain k :: int where
    k: "risk_percentage (fl (25 / 10000)) = fl (of_int k / 10)"
      "\<bar>of_int k - fl (fl (fl (25 / 10000) * 100) * 10)\<bar> \<le> 1 / 2"
      "\<bar>of_int k - fl (fl (fl (25 / 10000) * 100) * 10)\<bar> = 1 / 2 \<longrightarrow> even k"
    by blast
  from k(2) have "(2 :: rat) \<le> of_int k" "(of_int k :: rat) \<le> 3"
    unfolding y by linarith+
  then have "2 \<le> k" "k \<le> 3" by simp_all
  then have "k = 2 \<or> k = 3" by linarith
  moreover have "k \<noteq> 3"
  proof
    assume "k = 3"
    with k(3) show False unfolding y by simp
  qed
  ultimately have "k = 2" by simp
  with k(1) have r: "risk_percentage (fl (25 / 10000)) = fl (2 / 10)" by simp
  from t [THEN conjunct2, THEN conjunct2, THEN conjunct1, THEN mp, OF conjI [OF h]]
  have b: "0 \<le> risk_percentage (fl (25 / 10000))" "risk_percentage (fl (25 / 10000)) \<le> 100"
    by blast+
  from example_vector_assembled example_vector_scaled c h y r b show ?thesis by (intro conjI)
qed

lemma shown_complete:
  "shown_verdict
     [StHeader h1, StSubheader s1, verdict_call c, StSubheader s2, confidence_call fmt rp,
      StProgress pr, StSubheader s3, guidance_call pr, StSubheader s4, risk_factor_summary rf] =
     Some (if c = 1 then AtRisk else NotAtRisk)"
  "shown_tier
     [StHeader h1, StSubheader s1, verdict_call c, StSubheader s2, confidence_call fmt rp,
      StProgress pr, StSubheader s3, guidance_call pr, StSubheader s4, risk_factor_summary rf] =
     Some (if 1 / 2 \<le> pr then Elevated else Low)"
  by (simp_all add: shown_verdict_def shown_tier_def verdict_call_def guidance_call_def
      confidence_call_def risk_factor_summary_def)

text \<open>
  Claim C2. In every run that completes, the verdict shown is AtRisk exactly when the
  classifier's class label is 1 and NotAtRisk otherwise, and the guidance tier shown is
  Elevated exactly when the probability is at least 0.5 and Low otherwise; neither looks
  at the other's input. When the classifier answers class 0 with probability exactly 0.5,
  the run shows NotAtRisk together with Elevated.
\<close>

theorem verdict_and_tier_independent:
  "(input_data p = Inr fv \<and> scale_features tr fv = Inr df \<and>
    0 \<le> predict_proba m df \<and> predict_proba m df \<le> 1 \<longrightarrow>
      (shown_verdict (on_submit fmt m tr p) = Some AtRisk \<longleftrightarrow> predict m df = 1) \<and>
      (shown_verdict (on_submit fmt m tr p) = Some NotAtRisk \<longleftrightarrow> predict m df \<noteq> 1) \<and>
      (shown_tier (on_submit fmt m tr p) = Some Elevated \<longleftrightarrow> 1 / 2 \<le> predict_proba m df) \<and>
      (shown_tier (on_submit fmt m tr p) = Some Low \<longleftrightarrow> predict_proba m df < 1 / 2)) \<and>
   (input_data p = Inr fv \<and> scale_features tr fv = Inr df \<and>
    predict m df = 0 \<and> predict_proba m df = 1 / 2 \<longrightarrow>
      shown_verdict (on_submit fmt m tr p) = Some NotAtRisk \<and>
      shown_tier (on_submit fmt m tr p) = Some Elevated)"
proof (rule conjI; rule impI)
  assume a: "input_data p = Inr fv \<and> scale_features tr fv = Inr df \<and>
    0 \<le> predict_proba m df \<and> predict_proba m df \<le> 1"
  then have h: "input_data p = Inr fv" "scale_features tr fv = Inr df"
    "0 \<le> predict_proba m df" "predict_proba m df \<le> 1" by simp_all
  have v: "shown_verdict (on_submit fmt m tr p) = Some (if predict m df = 1 then AtRisk else NotAtRisk)"
    and g: "shown_tier (on_submit fmt m tr p) = Some (if 1 / 2 \<le> predict_proba m df then Elevated else Low)"
    by (simp_all only: on_submit_complete [OF h] shown_complete)
  show "(shown_verdict (on_submit fmt m tr p) = Some AtRisk \<longleftrightarrow> predict m df = 1) \<and>
      (shown_verdict (on_submit fmt m tr p) = Some NotAtRisk \<longleftrightarrow> predict m df \<noteq> 1) \<and>
      (shown_tier (on_submit fmt m tr p) = Some Elevated \<longleftrightarrow> 1 / 2 \<le> predict_proba m df) \<and>
      (shown_tier (on_submit fmt m tr p) = Some Low \<longleftrightarrow> predict_proba m df < 1 / 2)"
    unfolding v g by auto
next
  assume a: "input_data p = Inr fv \<and> scale_features tr fv = Inr df \<and>
    predict m df = 0 \<and> predict_proba m df = 1 / 2"
  then have h: "input_data p = Inr fv" "scale_features tr fv = Inr df"
    "0 \<le> predict_proba m df" "predict_proba m df \<le> 1" by simp_all
  have v: "shown_verdict (on_submit fmt m tr p) = Some (if predict m df = 1 then AtRisk else NotAtRisk)"
    and g: "shown_tier (on_submit fmt m tr p) = Some (if 1 / 2 \<le> predict_proba m df then Elevated else Low)"
    by (simp_all only: on_submit_complete [OF h] shown_complete)
  from a show "shown_verdict (on_submit fmt m tr p) = Some NotAtRisk \<and>
      shown_tier (on_submit fmt m tr p) = Some Elevated"
    unfolding v g by simp
qed

theorem verdict_and_tier_independent_witness:
  "input_data example_patient = Inr example_vector \<and>
   scale_features (minmax_transform example_params) example_vector = Inr example_scaled \<and>
   predict (stub_classifier 0 (1 / 2)) example_scaled = 0 \<and>
   predict_proba (stub_classifier 0 (1 / 2)) example_scaled = 1 / 2 \<and>
   shown_verdict (on_submit fmt_tenths (stub_classifier 0 (1 / 2))
     (minmax_transform example_params) example_patient) = Some NotAtRisk \<and>
   shown_tier (on_submit fmt_tenths (stub_classifier 0 (1 / 2))
     (minmax_transform example_params) example_patient) = Some Elevated \<and>
   shown_verdict (on_submit fmt_tenths (stub_classifier 1 (1 / 10))
     (minmax_transform example_params) example_patient) = Some AtRisk \<and>
   shown_tier (on_submit fmt_tenths (stub_classifier 1 (1 / 10))
     (minmax_transform example_params) example_patient) = Some Low"
proof -
  note a = example_vector_assembled and s = example_vector_scaled
  have c: "predict (stub_classifier 0 (1 / 2)) example_scaled = 0"
    "predict_proba (stub_classifier 0 (1 / 2)) example_scaled = 1 / 2"
    by (simp_all add: stub_classifier_sel)
  note t = verdict_and_tier_independent [of example_patient example_vector
      "minmax_transform example_params" example_scaled "stub_classifier 0 (1 / 2)" fmt_tenths]
  from t [THEN conjunct2, THEN mp, OF conjI [OF a conjI [OF s conjI [OF c]]]]
  have d: "shown_verdict (on_submit fmt_tenths (stub_classifier 0 (1 / 2))
     (minmax_transform example_params) example_patient) = Some NotAtRisk"
    "shown_tier (on_submit fmt_tenths (stub_classifier 0 (1 / 2))
     (minmax_transform example_params) example_patient) = Some Elevated"
    by simp_all
  have r: "0 \<le> predict_proba (stub_classifier 1 (1 / 10)) example_scaled"
    "predict_proba (stub_classifier 1 (1 / 10)) example_scaled \<le> 1"
    by (simp_all add: stub_classifier_sel)
  note u = verdict_and_tier_independent [of example_patient example_vector
      "minmax_transform example_params" example_scaled "stub_classifier 1 (1 / 10)" fmt_tenths]
  from u [THEN conjunct1, THEN mp, OF conjI [OF a conjI [OF s conjI [OF r]]]]
  have e: "shown_verdict (on_submit fmt_tenths (stub_classifier 1 (1 / 10))
     (minmax_transform example_params) example_patient) = Some AtRisk"
    "shown_tier (on_submit fmt_tenths (stub_classifier 1 (1 / 10))
     (minmax_transform example_params) example_patient) = Some Low"
    by (simp_all add: stub_classifier_sel)
  from a s c d e show ?thesis by (intro conjI)
qed

subsection \<open>End to end\<close>

lemma scale_features_total:
  assumes "input_data p = Inr fv" "\<forall>xs. length xs = 4 \<longrightarrow> length (tr xs) = 4"
  shows "\<exists>df. scale_features tr fv = Inr df"
proof -
  from input_data_cases [OF assms(1)] obtain a d g where
    i: "index_py age_categories (age_category p) = Inr a"
       "index_py diabetic_options (diabetic p) = Inr d"
       "index_py gen_health_options (gen_health p) = Inr g"
    by blast
  from assms(2) have l: "length (tr [to_float (PyFloat (bmi p)), to_float (PyInt (physical_health p)),
             to_float (PyInt (mental_health p)), to_float (PyInt (sleep_time p))]) = 4"
    by simp
  from input_data_Inr [OF i] assms(1) have "fv =
     [(''BMI'', PyFloat (bmi p)),
          (''Smoking'', PyInt (if smoking p = ''Yes'' then 1 else 0)),
          (''AlcoholDrinking'', PyInt (if alcohol p = ''Yes'' then 1 else 0)),
          (''Stroke'', PyInt (if stroke p = ''Yes'' then 1 else 0)),
          (''PhysicalHealth'', PyInt (physical_health p)),
          (''MentalHealth'', PyInt (mental_health p)),
          (''DiffWalking'', PyInt (if diff_walking p = ''Yes'' then 1 else 0)),
          (''Sex'', PyInt (if sex p = ''Male'' then 1 else 0)),
          (''AgeCategory'', PyInt (int a)),
          (''Diabetic'', PyInt (int d)),
          (''PhysicalActivity'', PyInt (if physical_activity p = ''Yes'' then 1 else 0)),
          (''GenHealth'', PyInt (int g)),
          (''SleepTime'', PyInt (sleep_time p)),
          (''Asthma'', PyInt (if asthma p = ''Yes'' then 1 else 0)),
          (''KidneyDisease'', PyInt (if kidney_disease p = ''Yes'' then 1 else 0)),
          (''SkinCancer'', PyInt (if skin_cancer p = ''Yes'' then 1 else 0))]"
    by simp
  with scale_features_16 [of tr "PyFloat (bmi p)" "PyInt (physical_health p)"
      "PyInt (mental_health p)" "PyInt (sleep_time p)", OF l]
  show ?thesis by (simp only: exI)
qed

lemma minmax_example_shape:
  "\<forall>xs. length xs = 4 \<longrightarrow> length (minmax_transform example_params xs) = 4"
  by (simp add: minmax_transform_def example_params_def)

text \<open>
  Claim C1. End to end: for every in-domain patient input, a scaler that returns one value
  per column it is given, and a classifier that answers class 1 with probability 0.82, the
  submitted-form run makes exactly these calls: the results header, the verdict
  "At Risk of Heart Disease", the confidence with risk percentage 82.0, the progress bar,
  the elevated guidance text verbatim (cardiology consultation within 2 weeks, ECG and
  lipid profile, education materials, follow-up in 1 month), and the risk-factor summary.
  The verdict shown is AtRisk and the guidance tier is Elevated.
\<close>

theorem end_to_end_at_risk:
  assumes "in_domain p" "\<forall>xs. length xs = 4 \<longrightarrow> length (tr xs) = 4"
  shows "on_submit fmt (stub_classifier 1 (82 / 100)) tr p =
     [StHeader ''Risk Assessment Results'',
      StSubheader ''Clinical Prediction'',
      StError ''**At Risk of Heart Disease**'',
      StSubheader ''Model Confidence'',
      StMarkdown (''<h1 style='' @ [CHR 0x27] @ ''text-align: center;'' @ [CHR 0x27] @ ''>'' @
                  fmt 82 @ ''%</h1>''),
      StProgress (82 / 100),
      StSubheader ''Clinical Guidance'',
      StWarning
       (''\<newline>            **This patient shows elevated risk for heart disease.**'' @
        ''\<newline>            Recommended actions:'' @
        ''\<newline>            - Schedule cardiology consultation within 2 weeks'' @
        ''\<newline>            - Order ECG and lipid profile tests'' @
        ''\<newline>            - Provide heart health education materials'' @
        ''\<newline>            - Schedule follow-up appointment in 1 month'' @
        ''\<newline>            ''),
      StSubheader ''Key Risk Factors'',
      risk_factor_summary (risk_factors fmt p)] \<and>
    shown_verdict (on_submit fmt (stub_classifier 1 (82 / 100)) tr p) = Some AtRisk \<and>
    risk_percentage (82 / 100) = 82 \<and>
    shown_tier (on_submit fmt (stub_classifier 1 (82 / 100)) tr p) = Some Elevated"
proof -
  from in_domain_indices [OF assms(1)] obtain a d g where
    i: "index_py age_categories (age_category p) = Inr a"
       "index_py diabetic_options (diabetic p) = Inr d"
       "index_py gen_health_options (gen_health p) = Inr g"
    by blast
  from input_data_Inr [OF i] obtain fv where fv: "input_data p = Inr fv" by simp
  from scale_features_total [OF fv assms(2)] obtain df where df: "scale_features tr fv = Inr df"
    by blast
  have b: "0 \<le> predict_proba (stub_classifier 1 (82 / 100)) df"
    "predict_proba (stub_classifier 1 (82 / 100)) df \<le> 1"
    by (simp_all add: stub_classifier_sel)
  note r = on_submit_complete [OF fv df b, of fmt]
  have rp: "risk_percentage (82 / 100) = 82" by (rule risk_percentage_examples)
  have v: "verdict_call 1 = StError ''**At Risk of Heart Disease**''"
    by (simp add: verdict_call_def at_risk_text_def)
  have g: "guidance_call (82 / 100) = StWarning
       (''\<newline>            **This patient shows elevated risk for heart disease.**'' @
        ''\<newline>            Recommended actions:'' @
        ''\<newline>            - Schedule cardiology consultation within 2 weeks'' @
        ''\<newline>            - Order ECG and lipid profile tests'' @
        ''\<newline>            - Provide heart health education materials'' @
        ''\<newline>            - Schedule follow-up appointment in 1 month'' @
        ''\<newline>            '')"
    unfolding guidance_call_def elevated_text_def by simp
  have c: "confidence_call fmt 82 =
      StMarkdown (''<h1 style='' @ [CHR 0x27] @ ''text-align: center;'' @ [CHR 0x27] @ ''>'' @
                  fmt 82 @ ''%</h1>'')"
    by (simp add: confidence_call_def)
  have "on_submit fmt (stub_classifier 1 (82 / 100)) tr p =
     [StHeader ''Risk Assessment Results'',
      StSubheader ''Clinical Prediction'',
      verdict_call 1,
      StSubheader ''Model Confidence'',
      confidence_call fmt 82,
      StProgress (82 / 100),
      StSubheader ''Clinical Guidance'',
      guidance_call (82 / 100),
      StSubheader ''Key Risk Factors'',
      risk_factor_summary (risk_factors fmt p)]"
    unfolding r stub_classifier_sel rp by (rule refl)
  then have 1: "on_submit fmt (stub_classifier 1 (82 / 100)) tr p =
     [StHeader ''Risk Assessment Results'',
      StSubheader ''Clinical Prediction'',
      StError ''**At Risk of Heart Disease**'',
      StSubheader ''Model Confidence'',
      StMarkdown (''<h1 style='' @ [CHR 0x27] @ ''text-align: center;'' @ [CHR 0x27] @ ''>'' @
                  fmt 82 @ ''%</h1>''),
      StProgress (82 / 100),
      StSubheader ''Clinical Guidance'',
      StWarning
       (''\<newline>            **This patient shows elevated risk for heart disease.**'' @
        ''\<newline>            Recommended actions:'' @
        ''\<newline>            - Schedule cardiology consultation within 2 weeks'' @
        ''\<newline>            - Order ECG and lipid profile tests'' @
        ''\<newline>            - Provide heart health education materials'' @
        ''\<newline>            - Schedule follow-up appointment in 1 month'' @
        ''\<newline>            ''),
      StSubheader ''Key Risk Factors'',
      risk_factor_summary (risk_factors fmt p)]"
    unfolding v g c .
  have 2: "shown_verdict (on_submit fmt (stub_classifier 1 (82 / 100)) tr p) = Some AtRisk"
    and 3: "shown_tier (on_submit fmt (stub_classifier 1 (82 / 100)) tr p) = Some Elevated"
    unfolding r shown_complete by (simp_all add: stub_classifier_sel)
  from 1 2 rp 3 show ?thesis by (intro conjI)
qed


theorem end_to_end_at_risk_witness:
  "in_domain example_patient \<and>
   length (minmax_transform example_params [32, 20, 5, 7]) = 4 \<and>
   on_submit fmt_tenths (stub_classifier 1 (82 / 100)) (minmax_transform example_params)
       example_patient =
     [StHeader ''Risk Assessment Results'',
      StSubheader ''Clinical Prediction'',
      StError ''**At Risk of Heart Disease**'',
      StSubheader ''Model Confidence'',
      StMarkdown (''<h1 style='' @ [CHR 0x27] @ ''text-align: center;'' @ [CHR 0x27] @
                  ''>82.0%</h1>''),
      StProgress (82 / 100),
      StSubheader ''Clinical Guidance'',
      StWarning
       (''\<newline>            **This patient shows elevated risk for heart disease.**'' @
        ''\<newline>            Recommended actions:'' @
        ''\<newline>            - Schedule cardiology consultation within 2 weeks'' @
        ''\<newline>            - Order ECG and lipid profile tests'' @
        ''\<newline>            - Provide heart health education materials'' @
        ''\<newline>            - Schedule follow-up appointment in 1 month'' @
        ''\<newline>            ''),
      StSubheader ''Key Risk Factors'',
      StWrite (''Identified risk factors: Smoking, Obesity (BMI: 32.0), '' @
               ''Frequent physical health issues, Age (60-64), Diabetes'')] \<and>
   shown_verdict (on_submit fmt_tenths (stub_classifier 1 (82 / 100))
       (minmax_transform example_params) example_patient) = Some AtRisk \<and>
   shown_tier (on_submit fmt_tenths (stub_classifier 1 (82 / 100))
       (minmax_transform example_params) example_patient) = Some Elevated"
proof -
  note t = end_to_end_at_risk [OF example_patient_in_domain minmax_example_shape, of fmt_tenths]
  have l: "length (minmax_transform example_params [32, 20, 5, 7]) = 4"
    by (simp add: minmax_transform_def example_params_def)
  have c: "''>'' @ fmt_tenths 82 @ ''%</h1>'' = ''>82.0%</h1>''" by code_simp
  have f: "risk_factor_summary (risk_factors fmt_tenths example_patient) =
      StWrite (''Identified risk factors: Smoking, Obesity (BMI: 32.0), '' @
               ''Frequent physical health issues, Age (60-64), Diabetes'')"
    by code_simp
  from t [THEN conjunct1] have 1: "on_submit fmt_tenths (stub_classifier 1 (82 / 100))
       (minmax_transform example_params) example_patient =
     [StHeader ''Risk Assessment Results'',
      StSubheader ''Clinical Prediction'',
      StError ''**At Risk of Heart Disease**'',
      StSubheader ''Model Confidence'',
      StMarkdown (''<h1 style='' @ [CHR 0x27] @ ''text-align: center;'' @ [CHR 0x27] @
                  ''>82.0%</h1>''),
      StProgress (82 / 100),
      StSubheader ''Clinical Guidance'',
      StWarning
       (''\<newline>            **This patient shows elevated risk for heart disease.**'' @
        ''\<newline>            Recommended actions:'' @
        ''\<newline>            - Schedule cardiology consultation within 2 weeks'' @
        ''\<newline>            - Order ECG and lipid profile tests'' @
        ''\<newline>            - Provide heart health education materials'' @
        ''\<newline>            - Schedule follow-up appointment in 1 month'' @
        ''\<newline>            ''),
      StSubheader ''Key Risk Factors'',
      StWrite (''Identified risk factors: Smoking, Obesity (BMI: 32.0), '' @
               ''Frequent physical health issues, Age (60-64), Diabetes'')]"
    unfolding f c .
  note 2 = t [THEN conjunct2, THEN conjunct1]
  note 3 = t [THEN conjunct2, THEN conjunct2, THEN conjunct2]
  from example_patient_in_domain l 1 2 3 show ?thesis by (intro conjI)
qed

subsection \<open>Failures\<close>

lemma input_data_unknown:
  assumes "age_category p \<notin> set age_categories \<or> diabetic p \<notin> set diabetic_options \<or>
     gen_health p \<notin> set gen_health_options"
  shows "input_data p =
     Inl (ValueError (if age_category p \<notin> set age_categories then age_category p
                      else if diabetic p \<notin> set diabetic_options then diabetic p
                      else gen_health p))"
proof (cases "age_category p \<in> set age_categories")
  case False
  from index_py_not_mem [OF False] False show ?thesis by (simp add: input_data_def)
next
  case a: True
  from index_py_mem [OF a] obtain i where i: "index_py age_categories (age_category p) = Inr i" ..
  show ?thesis
  proof (cases "diabetic p \<in> set diabetic_options")
    case False
    from index_py_not_mem [OF False] False a i show ?thesis by (simp add: input_data_def)
  next
    case d: True
    from index_py_mem [OF d] obtain j where j: "index_py diabetic_options (diabetic p) = Inr j" ..
    from assms a d have g: "gen_health p \<notin> set gen_health_options" by simp
    from index_py_not_mem [OF g] a d i j show ?thesis by (simp add: input_data_def)
  qed
qed

text \<open>
  Claim C7, as amended. When the age bracket, the diabetic status or the general-health
  rating is not in its label list, the assembly fails at the first such field, in this
  order, with a \<open>ValueError\<close> that carries the offending value; nothing is coerced, scaling
  and the classifier are not reached, and no verdict, percentage, guidance or risk-factor
  summary is rendered. The handler drops the exception: the caller gets the fixed message
  "Assessment failed: Please check all fields are complete" and nothing else.
\<close>

theorem unknown_category_refused:
  assumes "age_category p \<notin> set age_categories \<or> diabetic p \<notin> set diabetic_options \<or>
     gen_health p \<notin> set gen_health_options"
  shows "assessment fmt m tr p =
     ([], Some (ValueError (if age_category p \<notin> set age_categories then age_category p
                            else if diabetic p \<notin> set diabetic_options then diabetic p
                            else gen_health p))) \<and>
    on_submit fmt m tr p =
      [StError ''Assessment failed: Please check all fields are complete''] \<and>
    shown_verdict (on_submit fmt m tr p) = None \<and>
    shown_tier (on_submit fmt m tr p) = None"
proof -
  note e = input_data_unknown [OF assms]
  have a: "assessment fmt m tr p =
     ([], Some (ValueError (if age_category p \<notin> set age_categories then age_category p
                            else if diabetic p \<notin> set diabetic_options then diabetic p
                            else gen_health p)))"
    by (simp only: assessment_def e sum.case)
  have o: "on_submit fmt m tr p =
      [StError ''Assessment failed: Please check all fields are complete'']"
    by (simp only: on_submit_def a prod.case option.case append_Nil failed_text_def)
  have "shown_verdict (on_submit fmt m tr p) = None" "shown_tier (on_submit fmt m tr p) = None"
    unfolding o by (simp_all add: shown_verdict_def shown_tier_def at_risk_text_def)
  with a o show ?thesis by (intro conjI)
qed

theorem unknown_category_refused_witness:
  "age_category (example_patient\<lparr>age_category := ''90-94''\<rparr>) \<notin> set age_categories \<and>
   assessment fmt_tenths (stub_classifier 1 (82 / 100)) (minmax_transform example_params)
       (example_patient\<lparr>age_category := ''90-94''\<rparr>) = ([], Some (ValueError ''90-94'')) \<and>
   on_submit fmt_tenths (stub_classifier 1 (82 / 100)) (minmax_transform example_params)
       (example_patient\<lparr>age_category := ''90-94''\<rparr>) =
     [StError ''Assessment failed: Please check all fields are complete''] \<and>
   shown_verdict (on_submit fmt_tenths (stub_classifier 1 (82 / 100))
       (minmax_transform example_params) (example_patient\<lparr>age_category := ''90-94''\<rparr>)) = None"
proof -
  have h: "age_category (example_patient\<lparr>age_category := ''90-94''\<rparr>) \<notin> set age_categories"
    by (simp add: age_categories_def)
  note t = unknown_category_refused [OF disjI1 [OF h], of fmt_tenths "stub_classifier 1 (82 / 100)"
      "minmax_transform example_params"]
  from t [THEN conjunct1] h
  have a: "assessment fmt_tenths (stub_classifier 1 (82 / 100)) (minmax_transform example_params)
       (example_patient\<lparr>age_category := ''90-94''\<rparr>) = ([], Some (ValueError ''90-94''))"
    by simp
  from h a t [THEN conjunct2, THEN conjunct1] t [THEN conjunct2, THEN conjunct2, THEN conjunct1]
  show ?thesis by (intro conjI)
qed

text \<open>
  The claim as first stated asks for a failure that carries the offending field name and
  is reported with the failing field identified. The same unknown value in two different
  fields gives the same exception and the same report: the field is not identified.
\<close>

theorem unknown_category_counterexample:
  "assessment fmt_tenths (stub_classifier 1 (82 / 100)) (minmax_transform example_params)
       (example_patient\<lparr>age_category := ''90-94''\<rparr>) = ([], Some (ValueError ''90-94'')) \<and>
   assessment fmt_tenths (stub_classifier 1 (82 / 100)) (minmax_transform example_params)
       (example_patient\<lparr>diabetic := ''90-94''\<rparr>) = ([], Some (ValueError ''90-94'')) \<and>
   on_submit fmt_tenths (stub_classifier 1 (82 / 100)) (minmax_transform example_params)
       (example_patient\<lparr>age_category := ''90-94''\<rparr>) =
     [StError ''Assessment failed: Please check all fields are complete''] \<and>
   on_submit fmt_tenths (stub_classifier 1 (82 / 100)) (minmax_transform example_params)
       (example_patient\<lparr>diabetic := ''90-94''\<rparr>) =
     [StError ''Assessment failed: Please check all fields are complete'']"
  by (intro conjI; code_simp)

lemma app_load_failed:
  "app fmt (Inl e) scaler_load submitted p = [StError (''Error loading model: '' @ e)]"
  "app fmt (Inr model) (Inl e) submitted p = [StError (''Error loading model: '' @ e)]"
  by (simp_all add: app_def)

lemma load_error_shows_nothing:
  "StPageAndForm \<notin> set [StError (''Error loading model: '' @ e)]"
  "shown_verdict [StError (''Error loading model: '' @ e)] = None"
  "shown_tier [StError (''Error loading model: '' @ e)] = None"
  by (simp_all add: shown_verdict_def shown_tier_def at_risk_text_def)

lemma session_nth:
  "i < length runs \<Longrightarrow>
     session fmt runs ! i =
       app fmt (run_model (runs ! i)) (run_scaler (runs ! i)) (run_submitted (runs ! i))
         (run_form (runs ! i))"
  by (simp add: session_def)

text \<open>
  Claim C8, as amended. In every run of a session in which loading the classifier or the
  scaler fails, the run renders the loading error and nothing else: the page and the form
  are not rendered, so no request is accepted in that run, and no verdict or guidance is
  produced, whatever the form state. A run reaches the assessment only when both of its
  own loads have succeeded, and then it renders the page and, on submission, the
  assessment, whatever happened in earlier runs.
\<close>

theorem load_failure_stops_run:
  "app fmt (Inl e) scaler_load submitted p = [StError (''Error loading model: '' @ e)] \<and>
   app fmt (Inr model) (Inl e) submitted p = [StError (''Error loading model: '' @ e)] \<and>
   StPageAndForm \<notin> set (app fmt (Inl e) scaler_load submitted p) \<and>
   StPageAndForm \<notin> set (app fmt (Inr model) (Inl e) submitted p) \<and>
   shown_verdict (app fmt (Inl e) scaler_load submitted p) = None \<and>
   shown_verdict (app fmt (Inr model) (Inl e) submitted p) = None \<and>
   shown_tier (app fmt (Inl e) scaler_load submitted p) = None \<and>
   shown_tier (app fmt (Inr model) (Inl e) submitted p) = None \<and>
   app fmt (Inr model) (Inr transform) True p = StPageAndForm # on_submit fmt model transform p \<and>
   (i < length runs \<and> (isl (run_model (runs ! i)) \<or> isl (run_scaler (runs ! i))) \<longrightarrow>
      (\<exists>msg. session fmt runs ! i = [StError (''Error loading model: '' @ msg)]) \<and>
      StPageAndForm \<notin> set (session fmt runs ! i) \<and>
      shown_verdict (session fmt runs ! i) = None \<and>
      shown_tier (session fmt runs ! i) = None) \<and>
   (i < length runs \<and> run_model (runs ! i) = Inr model \<and> run_scaler (runs ! i) = Inr transform \<and>
    run_submitted (runs ! i) \<longrightarrow>
      session fmt runs ! i = StPageAndForm # on_submit fmt model transform (run_form (runs ! i)))"
proof -
  have 1: "app fmt (Inl e) scaler_load submitted p = [StError (''Error loading model: '' @ e)]"
    and 2: "app fmt (Inr model) (Inl e) submitted p = [StError (''Error loading model: '' @ e)]"
    by (rule app_load_failed)+
  have 3: "app fmt (Inr model) (Inr transform) True p =
      StPageAndForm # on_submit fmt model transform p"
    by (simp add: app_def)
  have 4: "(\<exists>msg. session fmt runs ! i = [StError (''Error loading model: '' @ msg)]) \<and>
      StPageAndForm \<notin> set (session fmt runs ! i) \<and>
      shown_verdict (session fmt runs ! i) = None \<and>
      shown_tier (session fmt runs ! i) = None"
    if a: "i < length runs \<and> (isl (run_model (runs ! i)) \<or> isl (run_scaler (runs ! i)))"
  proof -
    from a have l: "i < length runs" by simp
    have "\<exists>msg. session fmt runs ! i = [StError (''Error loading model: '' @ msg)]"
    proof (cases "run_model (runs ! i)")
      case (Inl msg)
      then show ?thesis by (simp only: session_nth [OF l] app_load_failed) blast
    next
      case m: (Inr mdl)
      with a obtain msg where "run_scaler (runs ! i) = Inl msg" by (cases "run_scaler (runs ! i)") auto
      with m show ?thesis by (simp only: session_nth [OF l] app_load_failed) blast
    qed
    then obtain msg where "session fmt runs ! i = [StError (''Error loading model: '' @ msg)]" ..
    then show ?thesis by (simp only: load_error_shows_nothing) blast
  qed
  have 5: "session fmt runs ! i =
      StPageAndForm # on_submit fmt model transform (run_form (runs ! i))"
    if a: "i < length runs \<and> run_model (runs ! i) = Inr model \<and>
      run_scaler (runs ! i) = Inr transform \<and> run_submitted (runs ! i)"
  proof -
    from a have l: "i < length runs" by simp
    from a show ?thesis by (simp add: session_nth [OF l] app_def)
  qed
  from 1 2 3 4 5 show ?thesis
    by (simp only: load_error_shows_nothing) blast
qed

theorem load_failure_stops_run_witness:
  "(0 :: nat) < length [failed_run, serving_run] \<and>
   isl (run_model ([failed_run, serving_run] ! 0)) \<and>
   session fmt_tenths [failed_run, serving_run] ! 0 = [StError ''Error loading model: missing''] \<and>
   shown_verdict (session fmt_tenths [failed_run, serving_run] ! 0) = None \<and>
   (1 :: nat) < length [failed_run, serving_run] \<and>
   run_model ([failed_run, serving_run] ! 1) = Inr (stub_classifier 1 (82 / 100)) \<and>
   run_scaler ([failed_run, serving_run] ! 1) = Inr (minmax_transform example_params) \<and>
   run_submitted ([failed_run, serving_run] ! 1) \<and>
   session fmt_tenths [failed_run, serving_run] ! 1 =
     StPageAndForm # on_submit fmt_tenths (stub_classifier 1 (82 / 100))
       (minmax_transform example_params) example_patient"
proof -
  have a: "(0 :: nat) < length [failed_run, serving_run]"
    "isl (run_model ([failed_run, serving_run] ! 0))"
    by (simp_all add: failed_run_def)
  have b: "(1 :: nat) < length [failed_run, serving_run]"
    "run_model ([failed_run, serving_run] ! 1) = Inr (stub_classifier 1 (82 / 100))"
    "run_scaler ([failed_run, serving_run] ! 1) = Inr (minmax_transform example_params)"
    "run_submitted ([failed_run, serving_run] ! 1)"
    by (simp_all add: serving_run_def)
  note t0 = load_failure_stops_run [of fmt_tenths _ _ _ _ _ _ 0 "[failed_run, serving_run]",
      THEN conjunct2, THEN conjunct2, THEN conjunct2, THEN conjunct2, THEN conjunct2,
      THEN conjunct2, THEN conjunct2, THEN conjunct2, THEN conjunct2, THEN conjunct1, THEN mp,
      OF conjI [OF a(1) disjI1 [OF a(2)]]]
  from t0 have v: "shown_verdict (session fmt_tenths [failed_run, serving_run] ! 0) = None"
    by (elim conjE)
  from t0 obtain msg where
    "session fmt_tenths [failed_run, serving_run] ! 0 = [StError (''Error loading model: '' @ msg)]"
    by (elim conjE exE)
  moreover have "session fmt_tenths [failed_run, serving_run] ! 0 =
      [StError ''Error loading model: missing'']"
    by (simp add: session_def failed_run_def app_def)
  ultimately have s0: "session fmt_tenths [failed_run, serving_run] ! 0 =
      [StError ''Error loading model: missing'']"
    by simp
  note t1 = load_failure_stops_run [of fmt_tenths _ _ _ _ "stub_classifier 1 (82 / 100)"
      "minmax_transform example_params" 1 "[failed_run, serving_run]",
      THEN conjunct2, THEN conjunct2, THEN conjunct2, THEN conjunct2, THEN conjunct2,
      THEN conjunct2, THEN conjunct2, THEN conjunct2, THEN conjunct2, THEN conjunct2, THEN mp,
      OF conjI [OF b(1) conjI [OF b(2) conjI [OF b(3) b(4)]]]]
  then have s1: "session fmt_tenths [failed_run, serving_run] ! 1 =
     StPageAndForm # on_submit fmt_tenths (stub_classifier 1 (82 / 100))
       (minmax_transform example_params) example_patient"
    by (simp add: serving_run_def)
  from a s0 v b s1 show ?thesis by (intro conjI)
qed

text \<open>
  The claim as first stated says that after a failed load no assessment can ever succeed.
  A session whose first run fails to load the classifier and whose second run loads both
  artifacts serves the second request.
\<close>

theorem load_failure_counterexample:
  "session fmt_tenths [failed_run, serving_run] ! 0 = [StError ''Error loading model: missing''] \<and>
   shown_verdict (session fmt_tenths [failed_run, serving_run] ! 1) = Some AtRisk \<and>
   shown_tier (session fmt_tenths [failed_run, serving_run] ! 1) = Some Elevated"
  by (intro conjI; code_simp)

end
